theory Spec2Isabelle
  imports Main "HOL-Library.Word"
begin

section \<open>The GpuOperator controller: data model\<close>

text \<open>
  The controller of package \<open>controller\<close> reconciles one \<open>GpuOperator\<close> custom resource
  against a Kubernetes cluster. The resource and its status are the structs of package
  \<open>v1alpha1\<close>; the cluster is reached through the controller-runtime client
  (\<open>r.Get\<close>, \<open>r.Create\<close>, \<open>r.Update\<close>, \<open>r.Status().Update\<close>).
\<close>

subsection \<open>Errors\<close>

text \<open>
  A Go \<open>error\<close> is either an API status error with its reason (what \<open>apierrors.IsNotFound\<close>
  and \<open>apierrors.IsAlreadyExists\<close> inspect), an error made by \<open>fmt.Errorf\<close> with \<open>%w\<close>
  (it wraps its cause), or one made by \<open>fmt.Errorf\<close> with no cause.
\<close>

datatype StatusReason =
    StatusReasonUnknown
  | StatusReasonNotFound
  | StatusReasonAlreadyExists
  | StatusReasonConflict
  | StatusReasonServiceUnavailable

datatype error =
    StatusError StatusReason string
  | WrapError string error
  | PlainError string

text \<open>\<open>err.Error()\<close>: the message; a wrapping error prints its prefix and then its cause.\<close>

fun Error :: "error \<Rightarrow> string" where
  "Error (StatusError r m) = m"
| "Error (WrapError p e) = p @ Error e"
| "Error (PlainError m) = m"

text \<open>\<open>apierrors.ReasonForError\<close> looks through wrapped errors for an API status.\<close>

fun ReasonForError :: "error \<Rightarrow> StatusReason" where
  "ReasonForError (StatusError r m) = r"
| "ReasonForError (WrapError p e) = ReasonForError e"
| "ReasonForError (PlainError m) = StatusReasonUnknown"

definition IsNotFound :: "error \<Rightarrow> bool" where
  "IsNotFound err = (ReasonForError err = StatusReasonNotFound)"

definition IsAlreadyExists :: "error \<Rightarrow> bool" where
  "IsAlreadyExists err = (ReasonForError err = StatusReasonAlreadyExists)"

subsection \<open>The GpuOperator resource (api/v1alpha1)\<close>

type_synonym State = string

definition StateReady :: State where "StateReady = ''Ready''"
definition StateProcessing :: State where "StateProcessing = ''Processing''"
definition StateError :: State where "StateError = ''Error''"
definition StateDeleting :: State where "StateDeleting = ''Deleting''"

text \<open>\<open>metav1.Time\<close>, in seconds.\<close>

type_synonym Time = nat

type_synonym ConditionStatus = string

definition ConditionTrue :: ConditionStatus where "ConditionTrue = ''True''"
definition ConditionFalse :: ConditionStatus where "ConditionFalse = ''False''"

record Condition =
  condType :: string
  condStatus :: ConditionStatus
  condReason :: string
  condMessage :: string
  condObservedGeneration :: "64 word"
  condLastTransitionTime :: Time

record Resources =
  CPU :: string
  Memory :: string

record ResourceRequirements =
  Limits :: "Resources option"
  Requests :: "Resources option"

record GpuOperatorSpec =
  DriverVersion :: string
  specNamespace :: string
  ValuesConfigMapName :: string
  specResources :: "ResourceRequirements option"

record GpuOperatorStatus =
  State :: State
  Conditions :: "Condition list"
  InstalledVersion :: string
  ObservedGeneration :: "64 word"

text \<open>
  \<open>GpuOperator\<close>: the fields of \<open>metav1.ObjectMeta\<close> the controller reads or writes
  (namespace, name, generation, deletion timestamp, finalizers), the spec and the status.
\<close>

record GpuOperator =
  metaNamespace :: string
  metaName :: string
  Generation :: "64 word"
  DeletionTimestamp :: "Time option"
  Finalizers :: "string list"
  Spec :: GpuOperatorSpec
  Status :: GpuOperatorStatus

subsection \<open>Dependent objects\<close>

record ServiceAccount =
  saName :: string
  saNamespace :: string
  saLabels :: "(string \<times> string) list"

record JobCondition =
  jcType :: string
  jcStatus :: ConditionStatus
  jcReason :: string
  jcMessage :: string

definition JobComplete :: string where "JobComplete = ''Complete''"
definition JobFailed :: string where "JobFailed = ''Failed''"

text \<open>
  The container argument of both jobs is a fixed shell script filled in by \<open>fmt.Sprintf\<close>;
  the model keeps the script's kind and its format arguments, in their order.
\<close>

datatype ContainerArgs =
    HelmInstallScript string string string string string
  | HelmUninstallScript string

record OwnerReference =
  ownerKind :: string
  ownerName :: string
  ownerController :: bool
  ownerBlockOwnerDeletion :: bool

record Job =
  jobName :: string
  jobNamespace :: string
  jobLabels :: "(string \<times> string) list"
  jobAnnotations :: "(string \<times> string) list"
  jobOwnerReferences :: "OwnerReference list"
  TTLSecondsAfterFinished :: "32 word"
  BackoffLimit :: "32 word"
  ServiceAccountName :: string
  RestartPolicy :: string
  containerName :: string
  containerImage :: string
  containerCommand :: "string list"
  containerArgs :: ContainerArgs
  jobConditions :: "JobCondition list"

subsection \<open>Constants of the controller\<close>

definition finalizerName :: string where
  "finalizerName = ''operator.kyma-project.io/gpu-operator-finalizer''"
definition conditionTypeReady :: string where "conditionTypeReady = ''Ready''"
definition conditionTypeInstalled :: string where "conditionTypeInstalled = ''Installed''"
definition installJobName :: string where "installJobName = ''gpu-operator-install''"
definition uninstallJobName :: string where "uninstallJobName = ''gpu-operator-uninstall''"
definition gardenerValuesURL :: string where
  "gardenerValuesURL = ''https://raw.githubusercontent.com/gardenlinux/gardenlinux-nvidia-installer/refs/heads/main/helm/gpu-operator-values.yaml''"
definition nvidiaHelmRepo :: string where "nvidiaHelmRepo = ''https://helm.ngc.nvidia.com/nvidia''"
definition helmImage :: string where "helmImage = ''alpine/helm:3.14.0''"

text \<open>\<open>time.Duration\<close> counts nanoseconds.\<close>

definition Second :: int where "Second = 1000000000"

record Result =
  Requeue :: bool
  RequeueAfter :: int

text \<open>\<open>ctrl.Result{}\<close>\<close>

definition emptyResult :: Result where
  "emptyResult = \<lparr>Requeue = False, RequeueAfter = 0\<rparr>"

record Request =
  reqNamespace :: string
  reqName :: string

section \<open>The cluster behind the client\<close>

text \<open>
  The API server is not part of the repository. The model keeps, per kind, the objects
  stored under their key (namespace and name; a namespace has a name only), the keys of
  the RBAC objects (roles, cluster roles and their bindings), the clock that
  \<open>metav1.Now()\<close> reads, and the list of the API calls made so far, oldest first. A write call
  is logged with the object the controller sent.

  What the server answers to a call is the environment's choice: \<open>env c n\<close> is its decision
  for the call number \<open>n\<close> (counted from 0 over \<open>calls\<close>).
  \<^item> \<open>Serve\<close>: the call is answered from the store.
  \<^item> \<open>Reject e\<close>: the call fails with \<open>e\<close> and changes nothing (the server is unavailable,
    the write conflicts, admission refuses it, ...).
  \<^item> \<open>Raced\<close>: on a create, another client has created the same object since the controller
    last looked, so the server answers AlreadyExists; on any other call, as \<open>Serve\<close>.

  Within one reconcile no other client changes or removes an object that exists, and the
  clock stands still: the two \<open>metav1.Now()\<close> of a status write read the same second.
\<close>

datatype env_step = Serve | Reject error | Raced

datatype kind =
    KGpuOperator | KNamespace | KServiceAccount | KJob
  | KClusterRole | KClusterRoleBinding | KRole | KRoleBinding

datatype api_call =
    CallGet kind string string
  | CallCreate kind string string
  | CallUpdate GpuOperator
  | CallStatusUpdate GpuOperator

record cluster =
  gpuOperators :: "string \<times> string \<rightharpoonup> GpuOperator"
  namespaces :: "string \<rightharpoonup> unit"
  serviceAccounts :: "string \<times> string \<rightharpoonup> ServiceAccount"
  jobs :: "string \<times> string \<rightharpoonup> Job"
  rbacObjects :: "(kind \<times> string \<times> string) set"
  env :: "nat \<Rightarrow> env_step"
  calls :: "api_call list"
  clock :: Time

fun rejects :: "env_step \<Rightarrow> bool" where
  "rejects (Reject e) = True"
| "rejects Serve = False"
| "rejects Raced = False"

definition next_step :: "cluster \<Rightarrow> env_step" where
  "next_step c = env c (length (calls c))"

definition log_call :: "cluster \<Rightarrow> api_call \<Rightarrow> cluster" where
  "log_call c call = c\<lparr>calls := calls c @ [call]\<rparr>"

text \<open>
  The status errors of the server, with its messages: the resource, the name between
  double quotes (character 0x22), and what is wrong.
\<close>

definition quoted :: "string \<Rightarrow> string" where
  "quoted name = CHR 0x22 # name @ [CHR 0x22]"

definition errNotFound :: "string \<Rightarrow> string \<Rightarrow> error" where
  "errNotFound resource name =
     StatusError StatusReasonNotFound (resource @ '' '' @ quoted name @ '' not found'')"

definition errAlreadyExists :: "string \<Rightarrow> string \<Rightarrow> error" where
  "errAlreadyExists resource name =
     StatusError StatusReasonAlreadyExists (resource @ '' '' @ quoted name @ '' already exists'')"

text \<open>\<open>r.Get\<close> of a GpuOperator, a namespace, a service account, a job.\<close>

definition Get_GpuOperator :: "cluster \<Rightarrow> string \<times> string \<Rightarrow> cluster \<times> (error + GpuOperator)" where
  "Get_GpuOperator c key =
     (let c' = log_call c (CallGet KGpuOperator (fst key) (snd key)) in
      case next_step c of
        Reject e \<Rightarrow> (c', Inl e)
      | _ \<Rightarrow> (case gpuOperators c key of
                None \<Rightarrow> (c', Inl (errNotFound ''gpuoperators.operator.kyma-project.io'' (snd key)))
              | Some g \<Rightarrow> (c', Inr g)))"

definition Get_Namespace :: "cluster \<Rightarrow> string \<Rightarrow> cluster \<times> (error + unit)" where
  "Get_Namespace c name =
     (let c' = log_call c (CallGet KNamespace [] name) in
      case next_step c of
        Reject e \<Rightarrow> (c', Inl e)
      | _ \<Rightarrow> (case namespaces c name of
                None \<Rightarrow> (c', Inl (errNotFound ''namespaces'' name))
              | Some n \<Rightarrow> (c', Inr n)))"

definition Get_ServiceAccount :: "cluster \<Rightarrow> string \<times> string \<Rightarrow> cluster \<times> (error + ServiceAccount)" where
  "Get_ServiceAccount c key =
     (let c' = log_call c (CallGet KServiceAccount (fst key) (snd key)) in
      case next_step c of
        Reject e \<Rightarrow> (c', Inl e)
      | _ \<Rightarrow> (case serviceAccounts c key of
                None \<Rightarrow> (c', Inl (errNotFound ''serviceaccounts'' (snd key)))
              | Some sa \<Rightarrow> (c', Inr sa)))"

definition Get_Job :: "cluster \<Rightarrow> string \<times> string \<Rightarrow> cluster \<times> (error + Job)" where
  "Get_Job c key =
     (let c' = log_call c (CallGet KJob (fst key) (snd key)) in
      case next_step c of
        Reject e \<Rightarrow> (c', Inl e)
      | _ \<Rightarrow> (case jobs c key of
                None \<Rightarrow> (c', Inl (errNotFound ''jobs.batch'' (snd key)))
              | Some j \<Rightarrow> (c', Inr j)))"

text \<open>
  \<open>r.Create\<close>: the server stores the object unless its key is taken, and then answers
  AlreadyExists. Under \<open>Raced\<close> the key has just been taken by another client's object.
\<close>

definition Create_Namespace :: "cluster \<Rightarrow> string \<Rightarrow> cluster \<times> error option" where
  "Create_Namespace c name =
     (let c' = log_call c (CallCreate KNamespace [] name) in
      case next_step c of
        Reject e \<Rightarrow> (c', Some e)
      | Raced \<Rightarrow> (c'\<lparr>namespaces := (namespaces c)(name \<mapsto> ())\<rparr>,
                  Some (errAlreadyExists ''namespaces'' name))
      | Serve \<Rightarrow> (case namespaces c name of
                    Some n \<Rightarrow> (c', Some (errAlreadyExists ''namespaces'' name))
                  | None \<Rightarrow> (c'\<lparr>namespaces := (namespaces c)(name \<mapsto> ())\<rparr>, None)))"

definition Create_ServiceAccount :: "cluster \<Rightarrow> ServiceAccount \<Rightarrow> cluster \<times> error option" where
  "Create_ServiceAccount c sa =
     (let key = (saNamespace sa, saName sa);
          c' = log_call c (CallCreate KServiceAccount (saNamespace sa) (saName sa)) in
      case next_step c of
        Reject e \<Rightarrow> (c', Some e)
      | Raced \<Rightarrow> (c'\<lparr>serviceAccounts := (serviceAccounts c)(key \<mapsto> sa)\<rparr>,
                  Some (errAlreadyExists ''serviceaccounts'' (saName sa)))
      | Serve \<Rightarrow> (case serviceAccounts c key of
                    Some x \<Rightarrow> (c', Some (errAlreadyExists ''serviceaccounts'' (saName sa)))
                  | None \<Rightarrow> (c'\<lparr>serviceAccounts := (serviceAccounts c)(key \<mapsto> sa)\<rparr>, None)))"

definition Create_Job :: "cluster \<Rightarrow> Job \<Rightarrow> cluster \<times> error option" where
  "Create_Job c job =
     (let key = (jobNamespace job, jobName job);
          c' = log_call c (CallCreate KJob (jobNamespace job) (jobName job)) in
      case next_step c of
        Reject e \<Rightarrow> (c', Some e)
      | Raced \<Rightarrow> (c'\<lparr>jobs := (jobs c)(key \<mapsto> job)\<rparr>,
                  Some (errAlreadyExists ''jobs.batch'' (jobName job)))
      | Serve \<Rightarrow> (case jobs c key of
                    Some x \<Rightarrow> (c', Some (errAlreadyExists ''jobs.batch'' (jobName job)))
                  | None \<Rightarrow> (c'\<lparr>jobs := (jobs c)(key \<mapsto> job)\<rparr>, None)))"

text \<open>
  \<open>r.Update\<close> writes the object but its status (the resource has the status subresource);
  \<open>r.Status().Update\<close> writes the status only. Both load the stored result back into the
  caller's object; on an error the caller's object stays as it was. An object that has a
  deletion timestamp leaves the store with the update that clears its last finalizer.
\<close>

definition Update :: "cluster \<Rightarrow> GpuOperator \<Rightarrow> cluster \<times> GpuOperator \<times> error option" where
  "Update c g =
     (let key = (metaNamespace g, metaName g);
          c' = log_call c (CallUpdate g) in
      case next_step c of
        Reject e \<Rightarrow> (c', g, Some e)
      | _ \<Rightarrow> (case gpuOperators c key of
                None \<Rightarrow> (c', g, Some (errNotFound ''gpuoperators.operator.kyma-project.io'' (metaName g)))
              | Some stored \<Rightarrow>
                  (let g' = g\<lparr>Status := Status stored\<rparr> in
                   if DeletionTimestamp g' \<noteq> None \<and> Finalizers g' = []
                   then (c'\<lparr>gpuOperators := (gpuOperators c)(key := None)\<rparr>, g', None)
                   else (c'\<lparr>gpuOperators := (gpuOperators c)(key \<mapsto> g')\<rparr>, g', None))))"

definition Status_Update :: "cluster \<Rightarrow> GpuOperator \<Rightarrow> cluster \<times> GpuOperator \<times> error option" where
  "Status_Update c g =
     (let key = (metaNamespace g, metaName g);
          c' = log_call c (CallStatusUpdate g) in
      case next_step c of
        Reject e \<Rightarrow> (c', g, Some e)
      | _ \<Rightarrow> (case gpuOperators c key of
                None \<Rightarrow> (c', g, Some (errNotFound ''gpuoperators.operator.kyma-project.io'' (metaName g)))
              | Some stored \<Rightarrow>
                  (let g' = stored\<lparr>Status := Status g\<rparr> in
                   (c'\<lparr>gpuOperators := (gpuOperators c)(key \<mapsto> g')\<rparr>, g', None))))"

section \<open>The controller\<close>

subsection \<open>Finalizers and owner references (controllerutil)\<close>

definition ContainsFinalizer :: "GpuOperator \<Rightarrow> string \<Rightarrow> bool" where
  "ContainsFinalizer o' finalizer = (finalizer \<in> set (Finalizers o'))"

definition AddFinalizer :: "GpuOperator \<Rightarrow> string \<Rightarrow> GpuOperator" where
  "AddFinalizer o' finalizer =
     (if finalizer \<in> set (Finalizers o') then o'
      else o'\<lparr>Finalizers := Finalizers o' @ [finalizer]\<rparr>)"

definition RemoveFinalizer :: "GpuOperator \<Rightarrow> string \<Rightarrow> GpuOperator" where
  "RemoveFinalizer o' finalizer = o'\<lparr>Finalizers := filter (\<lambda>f. f \<noteq> finalizer) (Finalizers o')\<rparr>"

text \<open>
  \<open>controllerutil.SetControllerReference\<close> (controller-runtime v0.19.3, as \<open>go.mod\<close>
  requires) first validates the owner: \<open>validateOwner\<close> refuses a namespaced owner for a
  cluster-scoped object and an owner that lives in a namespace other than the object's.
  The GpuOperator kind is registered in the scheme (\<open>SchemeBuilder.Register\<close>) and the
  job is new and has no controller yet, so nothing else can fail.
\<close>

definition validateOwner :: "string \<Rightarrow> string \<Rightarrow> error option" where
  "validateOwner ownerNs objNs =
     (if ownerNs \<noteq> [] then
        (if objNs = [] then
           Some (PlainError (''cluster-scoped resource must not have a namespace-scoped owner, owner's namespace '' @ ownerNs))
         else if ownerNs \<noteq> objNs then
           Some (PlainError (''cross-namespace owner references are disallowed, owner's namespace '' @ ownerNs
                   @ '', obj's namespace '' @ objNs))
         else None)
      else None)"

definition SetControllerReference :: "GpuOperator \<Rightarrow> Job \<Rightarrow> error + Job" where
  "SetControllerReference owner controlled =
     (case validateOwner (metaNamespace owner) (jobNamespace controlled) of
        Some err \<Rightarrow> Inl err
      | None \<Rightarrow>
          Inr (controlled\<lparr>jobOwnerReferences :=
                 [\<lparr>ownerKind = ''GpuOperator'', ownerName = metaName owner,
                   ownerController = True, ownerBlockOwnerDeletion = True\<rparr>]\<rparr>))"

subsection \<open>Dependent objects\<close>

text \<open>\<open>ensureServiceAccount\<close> creates the ServiceAccount needed for Helm Jobs.\<close>

definition ensureServiceAccount :: "cluster \<Rightarrow> string \<Rightarrow> cluster \<times> error option" where
  "ensureServiceAccount c namespace =
     (let sa = \<lparr>saName = ''gpu-operator'', saNamespace = namespace,
                saLabels = [(''app.kubernetes.io/name'', ''gpu-operator''),
                            (''app.kubernetes.io/managed-by'', ''gpu-operator-module'')]\<rparr> in
      case Get_ServiceAccount c (namespace, saName sa) of
        (c, Inl err) \<Rightarrow> (if IsNotFound err then Create_ServiceAccount c sa else (c, Some err))
      | (c, Inr existing) \<Rightarrow> (c, None))"

text \<open>\<open>ensureRBAC\<close>: the body is \<open>return nil\<close>.\<close>

definition ensureRBAC :: "cluster \<Rightarrow> string \<Rightarrow> cluster \<times> error option" where
  "ensureRBAC c namespace = (c, None)"

subsection \<open>The install job\<close>

definition installJob :: "string \<Rightarrow> Job" where
  "installJob namespace =
     (let valuesURL = gardenerValuesURL in
      \<lparr>jobName = installJobName, jobNamespace = namespace,
       jobLabels = [(''app.kubernetes.io/name'', ''gpu-operator-installer''),
                    (''app.kubernetes.io/managed-by'', ''gpu-operator-module''),
                    (''app.kubernetes.io/component'', ''installer'')],
       jobAnnotations = [(''gardener.ai/conformance-guide'', ''v1.33''),
                         (''gardener.ai/values-source'', gardenerValuesURL)],
       jobOwnerReferences = [],
       TTLSecondsAfterFinished = 300, BackoffLimit = 3,
       ServiceAccountName = ''gpu-operator'', RestartPolicy = ''OnFailure'',
       containerName = ''helm-installer'', containerImage = helmImage,
       containerCommand = [''/bin/sh'', ''-c''],
       containerArgs = HelmInstallScript nvidiaHelmRepo valuesURL namespace valuesURL namespace,
       jobConditions = []\<rparr>)"

text \<open>
  \<open>createHelmInstallJob\<close>. A non-empty \<open>Spec.ValuesConfigMapName\<close> is only logged: the
  values URL is the Gardener one either way.
\<close>

definition createHelmInstallJob :: "cluster \<Rightarrow> GpuOperator \<Rightarrow> string \<Rightarrow> cluster \<times> error option" where
  "createHelmInstallJob c gpuOperator namespace =
     (case SetControllerReference gpuOperator (installJob namespace) of
        Inl err \<Rightarrow> (c, Some (WrapError ''failed to set owner reference: '' err))
      | Inr job \<Rightarrow>
          (case Get_Job c (namespace, installJobName) of
             (c, Inl err) \<Rightarrow>
               (if IsNotFound err then
                  (case Create_Job c job of
                     (c, Some err) \<Rightarrow> (c, Some (WrapError ''failed to create job: '' err))
                   | (c, None) \<Rightarrow> (c, None))
                else (c, Some (WrapError ''failed to get existing job: '' err)))
           | (c, Inr existingJob) \<Rightarrow> (c, None)))"

text \<open>
  The loop of \<open>isJobCompleted\<close> over \<open>job.Status.Conditions\<close>: the first condition that is
  Complete or Failed with status True decides.
\<close>

fun jobConditionsOutcome :: "JobCondition list \<Rightarrow> bool \<times> error option" where
  "jobConditionsOutcome [] = (False, None)"
| "jobConditionsOutcome (condition # rest) =
     (if jcType condition = JobComplete \<and> jcStatus condition = ConditionTrue then (True, None)
      else if jcType condition = JobFailed \<and> jcStatus condition = ConditionTrue then
        (False, Some (PlainError (''helm installation job failed: '' @ jcMessage condition)))
      else jobConditionsOutcome rest)"

definition isJobCompleted :: "cluster \<Rightarrow> string \<Rightarrow> string \<Rightarrow> cluster \<times> bool \<times> error option" where
  "isJobCompleted c namespace name =
     (case Get_Job c (namespace, name) of
        (c, Inl err) \<Rightarrow> (if IsNotFound err then (c, False, None) else (c, False, Some err))
      | (c, Inr job) \<Rightarrow> (c, jobConditionsOutcome (jobConditions job)))"

subsection \<open>Teardown and error reporting\<close>

definition uninstallJob :: "string \<Rightarrow> Job" where
  "uninstallJob namespace =
     \<lparr>jobName = uninstallJobName, jobNamespace = namespace,
      jobLabels = [(''app.kubernetes.io/name'', ''gpu-operator-uninstaller''),
                   (''app.kubernetes.io/managed-by'', ''gpu-operator-module''),
                   (''app.kubernetes.io/component'', ''uninstaller'')],
      jobAnnotations = [],
      jobOwnerReferences = [],
      TTLSecondsAfterFinished = 60, BackoffLimit = 2,
      ServiceAccountName = ''gpu-operator'', RestartPolicy = ''OnFailure'',
      containerName = ''helm-uninstaller'', containerImage = helmImage,
      containerCommand = [''/bin/sh'', ''-c''],
      containerArgs = HelmUninstallScript namespace,
      jobConditions = []\<rparr>"

text \<open>
  The namespace the operator is installed into: \<open>Spec.Namespace\<close>, or \<open>gpu-operator\<close> when
  that is empty (the same three lines in \<open>Reconcile\<close> and in \<open>finalizeGpuOperator\<close>).
\<close>

definition installNamespace :: "GpuOperator \<Rightarrow> string" where
  "installNamespace gpuOperator =
     (if specNamespace (Spec gpuOperator) = [] then ''gpu-operator''
      else specNamespace (Spec gpuOperator))"

text \<open>
  \<open>finalizeGpuOperator\<close>: both the status write and the creation of the uninstall job are
  attempted, their errors are logged, and the function returns nil.
\<close>

definition finalizeGpuOperator :: "cluster \<Rightarrow> GpuOperator \<Rightarrow> cluster \<times> GpuOperator \<times> error option" where
  "finalizeGpuOperator c gpuOperator =
     (let gpuOperator = gpuOperator\<lparr>Status := (Status gpuOperator)\<lparr>State := StateDeleting\<rparr>\<rparr> in
      case Status_Update c gpuOperator of (c, gpuOperator, statusErr) \<Rightarrow>
        (let namespace = installNamespace gpuOperator in
         case Create_Job c (uninstallJob namespace) of (c, createErr) \<Rightarrow>
           (c, gpuOperator, None)))"

definition updateStatusError :: "cluster \<Rightarrow> GpuOperator \<Rightarrow> error \<Rightarrow> cluster \<times> Result \<times> error option" where
  "updateStatusError c gpuOperator err =
     (let gpuOperator = gpuOperator\<lparr>Status := (Status gpuOperator)\<lparr>State := StateError\<rparr>\<rparr>;
          errorCondition =
            \<lparr>condType = conditionTypeReady, condStatus = ConditionFalse,
             condReason = ''ReconciliationFailed'', condMessage = Error err,
             condObservedGeneration = Generation gpuOperator,
             condLastTransitionTime = clock c\<rparr>;
          gpuOperator = gpuOperator\<lparr>Status := (Status gpuOperator)\<lparr>Conditions := [errorCondition]\<rparr>\<rparr> in
      case Status_Update c gpuOperator of (c, gpuOperator, statusErr) \<Rightarrow>
        (c, emptyResult, Some err))"

subsection \<open>Reconcile\<close>

text \<open>
  \<open>Reconcile\<close> is one Go function; its blocks are modelled one by one, in the order of the
  source, and \<open>Reconcile\<close> chains them, leaving at the first \<open>return\<close>.
\<close>

text \<open>The deletion branch: the resource has a deletion timestamp.\<close>

definition Reconcile_deletion :: "cluster \<Rightarrow> GpuOperator \<Rightarrow> cluster \<times> Result \<times> error option" where
  "Reconcile_deletion c gpuOperator =
     (if ContainsFinalizer gpuOperator finalizerName then
        (case finalizeGpuOperator c gpuOperator of
           (c, gpuOperator, Some err) \<Rightarrow> (c, emptyResult, Some err)
         | (c, gpuOperator, None) \<Rightarrow>
             (let gpuOperator = RemoveFinalizer gpuOperator finalizerName in
              case Update c gpuOperator of
                (c, gpuOperator, Some err) \<Rightarrow> (c, emptyResult, Some err)
              | (c, gpuOperator, None) \<Rightarrow> (c, emptyResult, None)))
      else (c, emptyResult, None))"

text \<open>Add finalizer if not present.\<close>

definition Reconcile_addFinalizer :: "cluster \<Rightarrow> GpuOperator \<Rightarrow> cluster \<times> GpuOperator \<times> error option" where
  "Reconcile_addFinalizer c gpuOperator =
     (if \<not> ContainsFinalizer gpuOperator finalizerName then
        Update c (AddFinalizer gpuOperator finalizerName)
      else (c, gpuOperator, None))"

text \<open>Set status to Processing.\<close>

definition Reconcile_setProcessing :: "cluster \<Rightarrow> GpuOperator \<Rightarrow> cluster \<times> GpuOperator \<times> error option" where
  "Reconcile_setProcessing c gpuOperator =
     (if State (Status gpuOperator) \<noteq> StateProcessing then
        Status_Update c (gpuOperator\<lparr>Status := (Status gpuOperator)\<lparr>State := StateProcessing\<rparr>\<rparr>)
      else (c, gpuOperator, None))"

text \<open>
  Create namespace if it does not exist. The error this block returns is the one
  \<open>Reconcile\<close> passes to \<open>updateStatusError\<close>.
\<close>

definition Reconcile_ensureNamespace :: "cluster \<Rightarrow> string \<Rightarrow> cluster \<times> error option" where
  "Reconcile_ensureNamespace c namespace =
     (case Get_Namespace c namespace of
        (c, Inl err) \<Rightarrow>
          (if IsNotFound err then
             (case Create_Namespace c namespace of
                (c, Some err) \<Rightarrow> (if \<not> IsAlreadyExists err then (c, Some err) else (c, None))
              | (c, None) \<Rightarrow> (c, None))
           else (c, Some err))
      | (c, Inr ns) \<Rightarrow> (c, None))"

text \<open>Update status to Ready, with the two conditions.\<close>

definition Reconcile_setReady :: "cluster \<Rightarrow> GpuOperator \<Rightarrow> cluster \<times> Result \<times> error option" where
  "Reconcile_setReady c gpuOperator =
     (let gpuOperator = gpuOperator\<lparr>Status := (Status gpuOperator)
            \<lparr>State := StateReady,
             ObservedGeneration := Generation gpuOperator,
             InstalledVersion := DriverVersion (Spec gpuOperator)\<rparr>\<rparr>;
          readyCondition =
            \<lparr>condType = conditionTypeReady, condStatus = ConditionTrue,
             condReason = ''GpuOperatorReady'',
             condMessage = ''GPU Operator installed successfully following Gardener AI conformance guide'',
             condObservedGeneration = Generation gpuOperator,
             condLastTransitionTime = clock c\<rparr>;
          installedCondition =
            \<lparr>condType = conditionTypeInstalled, condStatus = ConditionTrue,
             condReason = ''HelmInstallComplete'',
             condMessage = ''NVIDIA GPU Operator installed via Helm with Garden Linux optimized values'',
             condObservedGeneration = Generation gpuOperator,
             condLastTransitionTime = clock c\<rparr>;
          gpuOperator = gpuOperator\<lparr>Status := (Status gpuOperator)
            \<lparr>Conditions := [readyCondition, installedCondition]\<rparr>\<rparr> in
      case Status_Update c gpuOperator of
        (c, gpuOperator, Some err) \<Rightarrow> (c, emptyResult, Some err)
      | (c, gpuOperator, None) \<Rightarrow> (c, emptyResult, None))"

text \<open>
  The steps after the finalizer and the Processing status: the dependents, the install job,
  the poll of its completion, and the Ready status.
\<close>

definition Reconcile_install :: "cluster \<Rightarrow> GpuOperator \<Rightarrow> cluster \<times> Result \<times> error option" where
  "Reconcile_install c gpuOperator =
     (let namespace = installNamespace gpuOperator in
      case Reconcile_ensureNamespace c namespace of
        (c, Some err) \<Rightarrow> updateStatusError c gpuOperator err
      | (c, None) \<Rightarrow>
     (case ensureServiceAccount c namespace of
        (c, Some err) \<Rightarrow> updateStatusError c gpuOperator err
      | (c, None) \<Rightarrow>
     (case ensureRBAC c namespace of
        (c, Some err) \<Rightarrow> updateStatusError c gpuOperator err
      | (c, None) \<Rightarrow>
     (case createHelmInstallJob c gpuOperator namespace of
        (c, Some err) \<Rightarrow> updateStatusError c gpuOperator err
      | (c, None) \<Rightarrow>
     (case isJobCompleted c namespace installJobName of
        (c, jobReady, Some err) \<Rightarrow> updateStatusError c gpuOperator err
      | (c, jobReady, None) \<Rightarrow>
          (if \<not> jobReady then (c, \<lparr>Requeue = False, RequeueAfter = 10 * Second\<rparr>, None)
           else Reconcile_setReady c gpuOperator))))))"

definition Reconcile :: "cluster \<Rightarrow> Request \<Rightarrow> cluster \<times> Result \<times> error option" where
  "Reconcile c req =
     (case Get_GpuOperator c (reqNamespace req, reqName req) of
        (c, Inl err) \<Rightarrow>
          (if IsNotFound err then (c, emptyResult, None) else (c, emptyResult, Some err))
      | (c, Inr gpuOperator) \<Rightarrow>
          (if DeletionTimestamp gpuOperator \<noteq> None then Reconcile_deletion c gpuOperator
           else
             (case Reconcile_addFinalizer c gpuOperator of
                (c, gpuOperator, Some err) \<Rightarrow> (c, emptyResult, Some err)
              | (c, gpuOperator, None) \<Rightarrow>
             (case Reconcile_setProcessing c gpuOperator of
                (c, gpuOperator, Some err) \<Rightarrow> (c, emptyResult, Some err)
              | (c, gpuOperator, None) \<Rightarrow> Reconcile_install c gpuOperator))))"

section \<open>Notions the properties are stated with\<close>

text \<open>The calls a run has added to the log of the cluster it started from.\<close>

definition new_calls :: "cluster \<Rightarrow> cluster \<Rightarrow> api_call list" where
  "new_calls c c' = drop (length (calls c)) (calls c')"

fun is_write :: "api_call \<Rightarrow> bool" where
  "is_write (CallGet k ns n) = False"
| "is_write (CallCreate k ns n) = True"
| "is_write (CallUpdate g) = True"
| "is_write (CallStatusUpdate g) = True"



text \<open>The conditions of the two status writes that replace the condition list.\<close>

definition successConditions :: "64 word \<Rightarrow> Time \<Rightarrow> Condition list" where
  "successConditions generation now =
     [\<lparr>condType = conditionTypeReady, condStatus = ConditionTrue,
       condReason = ''GpuOperatorReady'',
       condMessage = ''GPU Operator installed successfully following Gardener AI conformance guide'',
       condObservedGeneration = generation, condLastTransitionTime = now\<rparr>,
      \<lparr>condType = conditionTypeInstalled, condStatus = ConditionTrue,
       condReason = ''HelmInstallComplete'',
       condMessage = ''NVIDIA GPU Operator installed via Helm with Garden Linux optimized values'',
       condObservedGeneration = generation, condLastTransitionTime = now\<rparr>]"

definition failureCondition :: "64 word \<Rightarrow> Time \<Rightarrow> string \<Rightarrow> Condition" where
  "failureCondition generation now message =
     \<lparr>condType = conditionTypeReady, condStatus = ConditionFalse,
      condReason = ''ReconciliationFailed'', condMessage = message,
      condObservedGeneration = generation, condLastTransitionTime = now\<rparr>"

text \<open>The stored install job of a namespace has Complete as its deciding condition.\<close>

definition installJobSucceeded :: "cluster \<Rightarrow> string \<Rightarrow> bool" where
  "installJobSucceeded c namespace =
     (case jobs c (namespace, installJobName) of
        None \<Rightarrow> False
      | Some job \<Rightarrow> jobConditionsOutcome (jobConditions job) = (True, None))"

text \<open>
  The same said of the job's conditions themselves, as the Job controller records them,
  and not through the loop of \<open>isJobCompleted\<close>: the stored install job has a condition
  of type Complete with status True, and no condition of type Failed with status True
  stands before the first such condition.
\<close>

definition conditionIsTrue :: "string \<Rightarrow> JobCondition \<Rightarrow> bool" where
  "conditionIsTrue conditionType cd = (jcType cd = conditionType \<and> jcStatus cd = ConditionTrue)"

definition installJobComplete :: "cluster \<Rightarrow> string \<Rightarrow> bool" where
  "installJobComplete c namespace =
     (case jobs c (namespace, installJobName) of
        None \<Rightarrow> False
      | Some job \<Rightarrow>
          list_ex (conditionIsTrue JobComplete) (jobConditions job)
          \<and> \<not> list_ex (conditionIsTrue JobFailed)
                (takeWhile (\<lambda>cd. \<not> conditionIsTrue JobComplete cd) (jobConditions job)))"

section \<open>Example clusters\<close>

definition exampleRequest :: Request where
  "exampleRequest = \<lparr>reqNamespace = ''gpu-operator'', reqName = ''my-gpu-operator''\<rparr>"

definition exampleSpec :: GpuOperatorSpec where
  "exampleSpec = \<lparr>DriverVersion = ''570'', specNamespace = ''gpu-operator'',
                   ValuesConfigMapName = [], specResources = None\<rparr>"

text \<open>A resource just created: generation 1, no finalizer, empty status.\<close>

definition freshGpuOperator :: GpuOperator where
  "freshGpuOperator =
     \<lparr>metaNamespace = ''gpu-operator'', metaName = ''my-gpu-operator'', Generation = 1,
      DeletionTimestamp = None, Finalizers = [],
      Spec = exampleSpec,
      Status = \<lparr>State = [], Conditions = [], InstalledVersion = [], ObservedGeneration = 0\<rparr>\<rparr>"

text \<open>A resource at generation 2 that the controller is working on; generation 1 was observed.\<close>

definition processingGpuOperator :: GpuOperator where
  "processingGpuOperator =
     \<lparr>metaNamespace = ''gpu-operator'', metaName = ''my-gpu-operator'', Generation = 2,
      DeletionTimestamp = None, Finalizers = [finalizerName],
      Spec = exampleSpec,
      Status = \<lparr>State = StateProcessing, Conditions = [], InstalledVersion = [],
                ObservedGeneration = 1\<rparr>\<rparr>"

text \<open>A resource that has converged: Ready at time 50, generation 2 observed.\<close>

definition convergedGpuOperator :: GpuOperator where
  "convergedGpuOperator =
     \<lparr>metaNamespace = ''gpu-operator'', metaName = ''my-gpu-operator'', Generation = 2,
      DeletionTimestamp = None, Finalizers = [finalizerName],
      Spec = exampleSpec,
      Status = \<lparr>State = StateReady, Conditions = successConditions 2 50,
                InstalledVersion = ''570'', ObservedGeneration = 2\<rparr>\<rparr>"

definition exampleServiceAccount :: ServiceAccount where
  "exampleServiceAccount =
     \<lparr>saName = ''gpu-operator'', saNamespace = ''gpu-operator'',
      saLabels = [(''app.kubernetes.io/name'', ''gpu-operator''),
                  (''app.kubernetes.io/managed-by'', ''gpu-operator-module'')]\<rparr>"

definition completedJob :: Job where
  "completedJob = (installJob ''gpu-operator'')
     \<lparr>jobConditions := [\<lparr>jcType = JobComplete, jcStatus = ConditionTrue,
                          jcReason = ''Completed'', jcMessage = []\<rparr>]\<rparr>"

definition timedOutJob :: Job where
  "timedOutJob = (installJob ''gpu-operator'')
     \<lparr>jobConditions := [\<lparr>jcType = JobFailed, jcStatus = ConditionTrue,
                          jcReason = ''BackoffLimitExceeded'', jcMessage = ''timeout''\<rparr>]\<rparr>"

text \<open>Nothing but the fresh resource exists; every call is served.\<close>

definition freshCluster :: cluster where
  "freshCluster =
     \<lparr>gpuOperators = [(''gpu-operator'', ''my-gpu-operator'') \<mapsto> freshGpuOperator],
      namespaces = Map.empty, serviceAccounts = Map.empty, jobs = Map.empty,
      rbacObjects = {}, env = (\<lambda>n. Serve), calls = [], clock = 100\<rparr>"

text \<open>The dependents exist and the install job has completed.\<close>

definition convergedCluster :: cluster where
  "convergedCluster =
     \<lparr>gpuOperators = [(''gpu-operator'', ''my-gpu-operator'') \<mapsto> convergedGpuOperator],
      namespaces = [''gpu-operator'' \<mapsto> ()],
      serviceAccounts = [(''gpu-operator'', ''gpu-operator'') \<mapsto> exampleServiceAccount],
      jobs = [(''gpu-operator'', ''gpu-operator-install'') \<mapsto> completedJob],
      rbacObjects = {}, env = (\<lambda>n. Serve), calls = [], clock = 100\<rparr>"

text \<open>The dependents exist and the install job has failed with the message \<open>timeout\<close>.\<close>

definition failedCluster :: cluster where
  "failedCluster =
     \<lparr>gpuOperators = [(''gpu-operator'', ''my-gpu-operator'') \<mapsto> processingGpuOperator],
      namespaces = [''gpu-operator'' \<mapsto> ()],
      serviceAccounts = [(''gpu-operator'', ''gpu-operator'') \<mapsto> exampleServiceAccount],
      jobs = [(''gpu-operator'', ''gpu-operator-install'') \<mapsto> timedOutJob],
      rbacObjects = {}, env = (\<lambda>n. Serve), calls = [], clock = 100\<rparr>"

text \<open>
  The namespace exists, the service account does not; another client creates the service
  account between the controller's Get (call 2) and its Create (call 3).
\<close>

definition racedCluster :: cluster where
  "racedCluster =
     \<lparr>gpuOperators = [(''gpu-operator'', ''my-gpu-operator'') \<mapsto> processingGpuOperator],
      namespaces = [''gpu-operator'' \<mapsto> ()],
      serviceAccounts = Map.empty, jobs = Map.empty,
      rbacObjects = {}, env = (\<lambda>n. if n = 3 then Raced else Serve), calls = [], clock = 100\<rparr>"

text \<open>
  The resource is marked for deletion while its install job has no condition yet; the
  server rejects the status write (call 1) and the creation of the uninstall job (call 2).
\<close>

definition deletingGpuOperator :: GpuOperator where
  "deletingGpuOperator = processingGpuOperator\<lparr>DeletionTimestamp := Some 90\<rparr>"

definition deletingCluster :: cluster where
  "deletingCluster =
     \<lparr>gpuOperators = [(''gpu-operator'', ''my-gpu-operator'') \<mapsto> deletingGpuOperator],
      namespaces = [''gpu-operator'' \<mapsto> ()],
      serviceAccounts = [(''gpu-operator'', ''gpu-operator'') \<mapsto> exampleServiceAccount],
      jobs = [(''gpu-operator'', ''gpu-operator-install'') \<mapsto> installJob ''gpu-operator''],
      rbacObjects = {},
      env = (\<lambda>n. if n = 1 \<or> n = 2
                  then Reject (StatusError StatusReasonServiceUnavailable ''the server is currently unable to handle the request'')
                  else Serve),
      calls = [], clock = 100\<rparr>"

text \<open>
  The resource of the README: it lives in namespace \<open>default\<close> and installs into
  \<open>gpu-operator\<close>, where an install job exists already.
\<close>

definition readmeGpuOperator :: GpuOperator where
  "readmeGpuOperator = processingGpuOperator\<lparr>metaNamespace := ''default''\<rparr>"

definition readmeCluster :: cluster where
  "readmeCluster =
     \<lparr>gpuOperators = [(''default'', ''my-gpu-operator'') \<mapsto> readmeGpuOperator],
      namespaces = [''gpu-operator'' \<mapsto> ()],
      serviceAccounts = [(''gpu-operator'', ''gpu-operator'') \<mapsto> exampleServiceAccount],
      jobs = [(''gpu-operator'', ''gpu-operator-install'') \<mapsto> installJob ''gpu-operator''],
      rbacObjects = {}, env = (\<lambda>n. Serve), calls = [], clock = 100\<rparr>"

text \<open>
  The resource of the README just created, in a cluster where nothing else exists; the
  error \<open>SetControllerReference\<close> gives for it; and the object of the status write that
  reports this error.
\<close>

definition readmeFreshGpuOperator :: GpuOperator where
  "readmeFreshGpuOperator = freshGpuOperator\<lparr>metaNamespace := ''default''\<rparr>"

definition readmeFreshCluster :: cluster where
  "readmeFreshCluster =
     \<lparr>gpuOperators = [(''default'', ''my-gpu-operator'') \<mapsto> readmeFreshGpuOperator],
      namespaces = Map.empty, serviceAccounts = Map.empty, jobs = Map.empty,
      rbacObjects = {}, env = (\<lambda>n. Serve), calls = [], clock = 100\<rparr>"

definition ownerReferenceError :: error where
  "ownerReferenceError =
     WrapError ''failed to set owner reference: ''
       (PlainError ''cross-namespace owner references are disallowed, owner's namespace default, obj's namespace gpu-operator'')"

text \<open>The object the controller writes when it reports the converged resource Ready at time 100.\<close>

definition convergedReadyWrite :: GpuOperator where
  "convergedReadyWrite =
     convergedGpuOperator\<lparr>Status := (Status convergedGpuOperator)
       \<lparr>Conditions := successConditions 2 100\<rparr>\<rparr>"

text \<open>
  A resource marked for deletion that does not carry the controller's finalizer, in a
  cluster where nothing else exists.
\<close>

definition orphanedGpuOperator :: GpuOperator where
  "orphanedGpuOperator = freshGpuOperator\<lparr>DeletionTimestamp := Some 90\<rparr>"

definition orphanedCluster :: cluster where
  "orphanedCluster =
     \<lparr>gpuOperators = [(''gpu-operator'', ''my-gpu-operator'') \<mapsto> orphanedGpuOperator],
      namespaces = Map.empty, serviceAccounts = Map.empty, jobs = Map.empty,
      rbacObjects = {}, env = (\<lambda>n. Serve), calls = [], clock = 100\<rparr>"

text \<open>
  Nothing exists but the resource; another client creates the namespace between the
  controller's Get (call 1) and its Create (call 2).
\<close>

definition namespaceRacedCluster :: cluster where
  "namespaceRacedCluster =
     \<lparr>gpuOperators = [(''gpu-operator'', ''my-gpu-operator'') \<mapsto> processingGpuOperator],
      namespaces = Map.empty, serviceAccounts = Map.empty, jobs = Map.empty,
      rbacObjects = {}, env = (\<lambda>n. if n = 2 then Raced else Serve), calls = [], clock = 100\<rparr>"

text \<open>The object the controller writes when it reports the failed install job at time 100.\<close>

definition failedErrorWrite :: GpuOperator where
  "failedErrorWrite =
     processingGpuOperator\<lparr>Status := (Status processingGpuOperator)
       \<lparr>State := StateError,
        Conditions := [failureCondition 2 100 ''helm installation job failed: timeout'']\<rparr>\<rparr>"

text \<open>
  The dependents exist and the install job has completed, for the resource at generation
  2 whose status still shows Processing and observed generation 1.
\<close>

definition completingCluster :: cluster where
  "completingCluster =
     \<lparr>gpuOperators = [(''gpu-operator'', ''my-gpu-operator'') \<mapsto> processingGpuOperator],
      namespaces = [''gpu-operator'' \<mapsto> ()],
      serviceAccounts = [(''gpu-operator'', ''gpu-operator'') \<mapsto> exampleServiceAccount],
      jobs = [(''gpu-operator'', ''gpu-operator-install'') \<mapsto> completedJob],
      rbacObjects = {}, env = (\<lambda>n. Serve), calls = [], clock = 100\<rparr>"

definition completingReadyWrite :: GpuOperator where
  "completingReadyWrite =
     processingGpuOperator\<lparr>Status :=
       \<lparr>State = StateReady, Conditions = successConditions 2 100,
        InstalledVersion = ''570'', ObservedGeneration = 2\<rparr>\<rparr>"

text \<open>
  The clusters on the way of the reconcile with the failed install job: after the load,
  after the Get of the namespace, of the service account, and of the install job.
\<close>

definition failedLoaded :: cluster where
  "failedLoaded = log_call failedCluster (CallGet KGpuOperator ''gpu-operator'' ''my-gpu-operator'')"

definition failedNamespace :: cluster where
  "failedNamespace = log_call failedLoaded (CallGet KNamespace [] ''gpu-operator'')"

definition failedAccount :: cluster where
  "failedAccount = log_call failedNamespace (CallGet KServiceAccount ''gpu-operator'' ''gpu-operator'')"

definition failedSubmitted :: cluster where
  "failedSubmitted = log_call failedAccount (CallGet KJob ''gpu-operator'' ''gpu-operator-install'')"

definition readmeRequest :: Request where
  "readmeRequest = \<lparr>reqNamespace = ''default'', reqName = ''my-gpu-operator''\<rparr>"

text \<open>The steps of the first reconcile of the fresh resource, one after the other.\<close>

definition freshLoaded :: "cluster \<times> (error + GpuOperator)" where
  "freshLoaded = Get_GpuOperator freshCluster (reqNamespace exampleRequest, reqName exampleRequest)"

definition freshFinalizer :: "cluster \<times> GpuOperator \<times> error option" where
  "freshFinalizer = Reconcile_addFinalizer (fst freshLoaded) freshGpuOperator"

definition freshProcessing :: "cluster \<times> GpuOperator \<times> error option" where
  "freshProcessing = Reconcile_setProcessing (fst freshFinalizer) (fst (snd freshFinalizer))"

definition freshNamespace :: "cluster \<times> error option" where
  "freshNamespace =
     Reconcile_ensureNamespace (fst freshProcessing) (installNamespace (fst (snd freshProcessing)))"

definition freshAccount :: "cluster \<times> error option" where
  "freshAccount =
     ensureServiceAccount (fst freshNamespace) (installNamespace (fst (snd freshProcessing)))"

definition freshSubmitted :: "cluster \<times> error option" where
  "freshSubmitted =
     createHelmInstallJob (fst freshAccount) (fst (snd freshProcessing))
       (installNamespace (fst (snd freshProcessing)))"

definition freshPolled :: "cluster \<times> bool \<times> error option" where
  "freshPolled =
     isJobCompleted (fst freshSubmitted) (installNamespace (fst (snd freshProcessing))) installJobName"

section \<open>Notions the proofs are built with\<close>

text \<open>
  A call is benign when it is a read, a create of a namespace, a service account or a job,
  an update of the resource, or a status write whose state is not Ready.
\<close>

fun benign :: "api_call \<Rightarrow> bool" where
  "benign (CallGet k ns n) = True"
| "benign (CallCreate k ns n) = (k = KNamespace \<or> k = KServiceAccount \<or> k = KJob)"
| "benign (CallUpdate g) = True"
| "benign (CallStatusUpdate g) = (State (Status g) \<noteq> StateReady)"

definition extends_benign :: "cluster \<Rightarrow> cluster \<Rightarrow> bool" where
  "extends_benign c0 c = (\<exists>cs. calls c = calls c0 @ cs \<and> list_all benign cs)"

text \<open>What a status write with state Ready carries, and what the store then holds.\<close>

definition ready_write_ok :: "cluster \<Rightarrow> GpuOperator \<Rightarrow> bool" where
  "ready_write_ok c' g =
     (State (Status g) = StateReady
      \<and> ObservedGeneration (Status g) = Generation g
      \<and> InstalledVersion (Status g) = DriverVersion (Spec g)
      \<and> installJobSucceeded c' (installNamespace g))"

text \<open>
  The shape of a run from \<open>c0\<close> to \<open>c'\<close>: benign calls only, or benign calls and then one
  status write of the Ready kind.
\<close>

definition run_ok :: "cluster \<Rightarrow> cluster \<Rightarrow> bool" where
  "run_ok c0 c' =
     (\<exists>cs. calls c' = calls c0 @ cs \<and>
        (list_all benign cs \<or>
         (\<exists>cs' g. cs = cs' @ [CallStatusUpdate g] \<and> list_all benign cs' \<and> ready_write_ok c' g)))"

fun creates_rbac :: "api_call \<Rightarrow> bool" where
  "creates_rbac (CallCreate k ns n) =
     (k = KClusterRole \<or> k = KClusterRoleBinding \<or> k = KRole \<or> k = KRoleBinding)"
| "creates_rbac (CallGet k ns n) = False"
| "creates_rbac (CallUpdate g) = False"
| "creates_rbac (CallStatusUpdate g) = False"

text \<open>The error of a rejected call.\<close>

fun rejection :: "env_step \<Rightarrow> error option" where
  "rejection (Reject e) = Some e"
| "rejection Serve = None"
| "rejection Raced = None"

text \<open>
  Tracking of the observed generation through a reconcile of the loaded resource \<open>g0\<close>:
  an object tracks \<open>g0\<close> when it has its name, its generation and its observed generation;
  a status write is in order when it carries the generation of \<open>g0\<close> and, as observed
  generation, that generation if its state is Ready and the observed generation of \<open>g0\<close>
  if not.
\<close>

definition tracks :: "GpuOperator \<Rightarrow> GpuOperator \<Rightarrow> bool" where
  "tracks g0 g =
     (metaNamespace g = metaNamespace g0 \<and> metaName g = metaName g0
      \<and> Generation g = Generation g0
      \<and> ObservedGeneration (Status g) = ObservedGeneration (Status g0))"

definition stored_tracks :: "GpuOperator \<Rightarrow> cluster \<Rightarrow> bool" where
  "stored_tracks g0 c =
     (case gpuOperators c (metaNamespace g0, metaName g0) of
        None \<Rightarrow> True
      | Some s \<Rightarrow> tracks g0 s)"

fun obs_ok :: "GpuOperator \<Rightarrow> api_call \<Rightarrow> bool" where
  "obs_ok g0 (CallStatusUpdate g) =
     (Generation g = Generation g0
      \<and> ObservedGeneration (Status g) =
          (if State (Status g) = StateReady then Generation g0
           else ObservedGeneration (Status g0)))"
| "obs_ok g0 (CallGet k ns n) = True"
| "obs_ok g0 (CallCreate k ns n) = True"
| "obs_ok g0 (CallUpdate g) = True"

definition obs_run :: "GpuOperator \<Rightarrow> cluster \<Rightarrow> cluster \<Rightarrow> bool" where
  "obs_run g0 c0 c = (\<exists>cs. calls c = calls c0 @ cs \<and> list_all (obs_ok g0) cs)"

definition obs_inv :: "GpuOperator \<Rightarrow> cluster \<Rightarrow> cluster \<Rightarrow> GpuOperator \<Rightarrow> bool" where
  "obs_inv g0 c0 c g = (obs_run g0 c0 c \<and> stored_tracks g0 c \<and> tracks g0 g)"

section \<open>Basic facts\<close>

lemmas client_defs = Get_GpuOperator_def Get_Namespace_def Get_ServiceAccount_def Get_Job_def
  Create_Namespace_def Create_ServiceAccount_def Create_Job_def Update_def Status_Update_def
  log_call_def next_step_def

lemmas ctrl_defs = Reconcile_def Reconcile_install_def Reconcile_setReady_def
  Reconcile_ensureNamespace_def Reconcile_setProcessing_def Reconcile_addFinalizer_def
  Reconcile_deletion_def updateStatusError_def finalizeGpuOperator_def installNamespace_def
  isJobCompleted_def createHelmInstallJob_def ensureRBAC_def ensureServiceAccount_def
  SetControllerReference_def validateOwner_def ContainsFinalizer_def AddFinalizer_def
  RemoveFinalizer_def IsNotFound_def IsAlreadyExists_def errNotFound_def errAlreadyExists_def quoted_def

lemmas const_defs = StateReady_def StateProcessing_def StateError_def StateDeleting_def
  ConditionTrue_def ConditionFalse_def JobComplete_def JobFailed_def finalizerName_def
  conditionTypeReady_def conditionTypeInstalled_def installJobName_def uninstallJobName_def

lemmas example_defs = exampleRequest_def exampleSpec_def freshGpuOperator_def
  processingGpuOperator_def convergedGpuOperator_def exampleServiceAccount_def completedJob_def
  timedOutJob_def freshCluster_def convergedCluster_def failedCluster_def racedCluster_def
  deletingGpuOperator_def deletingCluster_def readmeGpuOperator_def readmeCluster_def
  installJob_def uninstallJob_def successConditions_def failureCondition_def
  convergedReadyWrite_def orphanedGpuOperator_def orphanedCluster_def readmeRequest_def failedErrorWrite_def
  completingCluster_def completingReadyWrite_def failedLoaded_def failedNamespace_def
  failedAccount_def failedSubmitted_def readmeFreshGpuOperator_def readmeFreshCluster_def
  ownerReferenceError_def
  namespaceRacedCluster_def

lemma State_distinct [simp]:
  "StateReady \<noteq> StateProcessing" "StateReady \<noteq> StateError" "StateReady \<noteq> StateDeleting"
  "StateProcessing \<noteq> StateReady" "StateError \<noteq> StateReady" "StateDeleting \<noteq> StateReady"
  by (simp_all add: StateReady_def StateProcessing_def StateError_def StateDeleting_def)

subsection \<open>What each client call logs and leaves alone\<close>

lemma calls_Get_GpuOperator [simp]:
  "calls (fst (Get_GpuOperator c key)) = calls c @ [CallGet KGpuOperator (fst key) (snd key)]"
  by (simp add: client_defs Let_def split: env_step.splits option.splits)
lemma calls_Get_Namespace [simp]:
  "calls (fst (Get_Namespace c name)) = calls c @ [CallGet KNamespace [] name]"
  by (simp add: client_defs Let_def split: env_step.splits option.splits)
lemma calls_Get_ServiceAccount [simp]:
  "calls (fst (Get_ServiceAccount c key)) = calls c @ [CallGet KServiceAccount (fst key) (snd key)]"
  by (simp add: client_defs Let_def split: env_step.splits option.splits)
lemma calls_Get_Job [simp]:
  "calls (fst (Get_Job c key)) = calls c @ [CallGet KJob (fst key) (snd key)]"
  by (simp add: client_defs Let_def split: env_step.splits option.splits)
lemma calls_Create_Namespace [simp]:
  "calls (fst (Create_Namespace c name)) = calls c @ [CallCreate KNamespace [] name]"
  by (simp add: client_defs Let_def split: env_step.splits option.splits)
lemma calls_Create_ServiceAccount [simp]:
  "calls (fst (Create_ServiceAccount c sa)) = calls c @ [CallCreate KServiceAccount (saNamespace sa) (saName sa)]"
  by (simp add: client_defs Let_def split: env_step.splits option.splits)
lemma calls_Create_Job [simp]:
  "calls (fst (Create_Job c job)) = calls c @ [CallCreate KJob (jobNamespace job) (jobName job)]"
  by (simp add: client_defs Let_def split: env_step.splits option.splits)
lemma calls_Update [simp]:
  "calls (fst (Update c g)) = calls c @ [CallUpdate g]"
  by (simp add: client_defs Let_def split: env_step.splits option.splits)
lemma calls_Status_Update [simp]:
  "calls (fst (Status_Update c g)) = calls c @ [CallStatusUpdate g]"
  by (simp add: client_defs Let_def split: env_step.splits option.splits)

lemma rbacObjects_Get_GpuOperator [simp]: "rbacObjects (fst (Get_GpuOperator c key)) = rbacObjects c"
  by (simp add: client_defs Let_def split: env_step.splits option.splits)
lemma rbacObjects_Get_Namespace [simp]: "rbacObjects (fst (Get_Namespace c name)) = rbacObjects c"
  by (simp add: client_defs Let_def split: env_step.splits option.splits)
lemma rbacObjects_Get_ServiceAccount [simp]: "rbacObjects (fst (Get_ServiceAccount c key)) = rbacObjects c"
  by (simp add: client_defs Let_def split: env_step.splits option.splits)
lemma rbacObjects_Get_Job [simp]: "rbacObjects (fst (Get_Job c key)) = rbacObjects c"
  by (simp add: client_defs Let_def split: env_step.splits option.splits)
lemma rbacObjects_Create_Namespace [simp]: "rbacObjects (fst (Create_Namespace c name)) = rbacObjects c"
  by (simp add: client_defs Let_def split: env_step.splits option.splits)
lemma rbacObjects_Create_ServiceAccount [simp]: "rbacObjects (fst (Create_ServiceAccount c sa)) = rbacObjects c"
  by (simp add: client_defs Let_def split: env_step.splits option.splits)
lemma rbacObjects_Create_Job [simp]: "rbacObjects (fst (Create_Job c job)) = rbacObjects c"
  by (simp add: client_defs Let_def split: env_step.splits option.splits)
lemma rbacObjects_Update [simp]: "rbacObjects (fst (Update c g)) = rbacObjects c"
  by (simp add: client_defs Let_def split: env_step.splits option.splits)
lemma rbacObjects_Status_Update [simp]: "rbacObjects (fst (Status_Update c g)) = rbacObjects c"
  by (simp add: client_defs Let_def split: env_step.splits option.splits)

lemma env_Get_GpuOperator [simp]: "env (fst (Get_GpuOperator c key)) = env c"
  by (simp add: client_defs Let_def split: env_step.splits option.splits)
lemma env_Get_Namespace [simp]: "env (fst (Get_Namespace c name)) = env c"
  by (simp add: client_defs Let_def split: env_step.splits option.splits)
lemma env_Get_ServiceAccount [simp]: "env (fst (Get_ServiceAccount c key)) = env c"
  by (simp add: client_defs Let_def split: env_step.splits option.splits)
lemma env_Get_Job [simp]: "env (fst (Get_Job c key)) = env c"
  by (simp add: client_defs Let_def split: env_step.splits option.splits)
lemma env_Create_Namespace [simp]: "env (fst (Create_Namespace c name)) = env c"
  by (simp add: client_defs Let_def split: env_step.splits option.splits)
lemma env_Create_ServiceAccount [simp]: "env (fst (Create_ServiceAccount c sa)) = env c"
  by (simp add: client_defs Let_def split: env_step.splits option.splits)
lemma env_Create_Job [simp]: "env (fst (Create_Job c job)) = env c"
  by (simp add: client_defs Let_def split: env_step.splits option.splits)
lemma env_Update [simp]: "env (fst (Update c g)) = env c"
  by (simp add: client_defs Let_def split: env_step.splits option.splits)
lemma env_Status_Update [simp]: "env (fst (Status_Update c g)) = env c"
  by (simp add: client_defs Let_def split: env_step.splits option.splits)

lemma clock_Get_GpuOperator [simp]: "clock (fst (Get_GpuOperator c key)) = clock c"
  by (simp add: client_defs Let_def split: env_step.splits option.splits)
lemma clock_Get_Namespace [simp]: "clock (fst (Get_Namespace c name)) = clock c"
  by (simp add: client_defs Let_def split: env_step.splits option.splits)
lemma clock_Get_ServiceAccount [simp]: "clock (fst (Get_ServiceAccount c key)) = clock c"
  by (simp add: client_defs Let_def split: env_step.splits option.splits)
lemma clock_Get_Job [simp]: "clock (fst (Get_Job c key)) = clock c"
  by (simp add: client_defs Let_def split: env_step.splits option.splits)
lemma clock_Create_Namespace [simp]: "clock (fst (Create_Namespace c name)) = clock c"
  by (simp add: client_defs Let_def split: env_step.splits option.splits)
lemma clock_Create_ServiceAccount [simp]: "clock (fst (Create_ServiceAccount c sa)) = clock c"
  by (simp add: client_defs Let_def split: env_step.splits option.splits)
lemma clock_Create_Job [simp]: "clock (fst (Create_Job c job)) = clock c"
  by (simp add: client_defs Let_def split: env_step.splits option.splits)
lemma clock_Update [simp]: "clock (fst (Update c g)) = clock c"
  by (simp add: client_defs Let_def split: env_step.splits option.splits)
lemma clock_Status_Update [simp]: "clock (fst (Status_Update c g)) = clock c"
  by (simp add: client_defs Let_def split: env_step.splits option.splits)

lemma jobs_Get_GpuOperator [simp]: "jobs (fst (Get_GpuOperator c key)) = jobs c"
  by (simp add: client_defs Let_def split: env_step.splits option.splits)
lemma jobs_Get_Namespace [simp]: "jobs (fst (Get_Namespace c name)) = jobs c"
  by (simp add: client_defs Let_def split: env_step.splits option.splits)
lemma jobs_Get_ServiceAccount [simp]: "jobs (fst (Get_ServiceAccount c key)) = jobs c"
  by (simp add: client_defs Let_def split: env_step.splits option.splits)
lemma jobs_Get_Job [simp]: "jobs (fst (Get_Job c key)) = jobs c"
  by (simp add: client_defs Let_def split: env_step.splits option.splits)
lemma jobs_Create_Namespace [simp]: "jobs (fst (Create_Namespace c name)) = jobs c"
  by (simp add: client_defs Let_def split: env_step.splits option.splits)
lemma jobs_Create_ServiceAccount [simp]: "jobs (fst (Create_ServiceAccount c sa)) = jobs c"
  by (simp add: client_defs Let_def split: env_step.splits option.splits)
lemma jobs_Update [simp]: "jobs (fst (Update c g)) = jobs c"
  by (simp add: client_defs Let_def split: env_step.splits option.splits)
lemma jobs_Status_Update [simp]: "jobs (fst (Status_Update c g)) = jobs c"
  by (simp add: client_defs Let_def split: env_step.splits option.splits)

lemma gpuOperators_Get_GpuOperator [simp]: "gpuOperators (fst (Get_GpuOperator c key)) = gpuOperators c"
  by (simp add: client_defs Let_def split: env_step.splits option.splits)
lemma gpuOperators_Get_Namespace [simp]: "gpuOperators (fst (Get_Namespace c name)) = gpuOperators c"
  by (simp add: client_defs Let_def split: env_step.splits option.splits)
lemma gpuOperators_Get_ServiceAccount [simp]: "gpuOperators (fst (Get_ServiceAccount c key)) = gpuOperators c"
  by (simp add: client_defs Let_def split: env_step.splits option.splits)
lemma gpuOperators_Get_Job [simp]: "gpuOperators (fst (Get_Job c key)) = gpuOperators c"
  by (simp add: client_defs Let_def split: env_step.splits option.splits)
lemma gpuOperators_Create_Namespace [simp]: "gpuOperators (fst (Create_Namespace c name)) = gpuOperators c"
  by (simp add: client_defs Let_def split: env_step.splits option.splits)
lemma gpuOperators_Create_ServiceAccount [simp]: "gpuOperators (fst (Create_ServiceAccount c sa)) = gpuOperators c"
  by (simp add: client_defs Let_def split: env_step.splits option.splits)
lemma gpuOperators_Create_Job [simp]: "gpuOperators (fst (Create_Job c job)) = gpuOperators c"
  by (simp add: client_defs Let_def split: env_step.splits option.splits)

subsection \<open>Runs of benign calls\<close>

lemma extends_benign_refl [simp]: "extends_benign c c"
  by (simp add: extends_benign_def)

lemma benign_Get_GpuOperator [intro!]:
  "extends_benign c0 c \<Longrightarrow> extends_benign c0 (fst (Get_GpuOperator c x))"
  by (auto simp: extends_benign_def)
lemma benign_Get_Namespace [intro!]:
  "extends_benign c0 c \<Longrightarrow> extends_benign c0 (fst (Get_Namespace c x))"
  by (auto simp: extends_benign_def)
lemma benign_Get_ServiceAccount [intro!]:
  "extends_benign c0 c \<Longrightarrow> extends_benign c0 (fst (Get_ServiceAccount c x))"
  by (auto simp: extends_benign_def)
lemma benign_Get_Job [intro!]:
  "extends_benign c0 c \<Longrightarrow> extends_benign c0 (fst (Get_Job c x))"
  by (auto simp: extends_benign_def)
lemma benign_Create_Namespace [intro!]:
  "extends_benign c0 c \<Longrightarrow> extends_benign c0 (fst (Create_Namespace c x))"
  by (auto simp: extends_benign_def)
lemma benign_Create_ServiceAccount [intro!]:
  "extends_benign c0 c \<Longrightarrow> extends_benign c0 (fst (Create_ServiceAccount c x))"
  by (auto simp: extends_benign_def)
lemma benign_Create_Job [intro!]:
  "extends_benign c0 c \<Longrightarrow> extends_benign c0 (fst (Create_Job c x))"
  by (auto simp: extends_benign_def)
lemma benign_Update [intro!]:
  "extends_benign c0 c \<Longrightarrow> extends_benign c0 (fst (Update c x))"
  by (auto simp: extends_benign_def)
lemma benign_Status_Update:
  "extends_benign c0 c \<Longrightarrow> State (Status g) \<noteq> StateReady \<Longrightarrow>
   extends_benign c0 (fst (Status_Update c g))"
  by (auto simp: extends_benign_def)

lemma benign_ensureServiceAccount [intro!]:
  "extends_benign c0 c \<Longrightarrow> extends_benign c0 (fst (ensureServiceAccount c namespace))"
  by (auto simp: ensureServiceAccount_def Let_def case_prod_beta split: sum.splits)

lemma benign_ensureRBAC [intro!]:
  "extends_benign c0 c \<Longrightarrow> extends_benign c0 (fst (ensureRBAC c namespace))"
  by (simp add: ensureRBAC_def)

lemma benign_ensureNamespace [intro!]:
  "extends_benign c0 c \<Longrightarrow> extends_benign c0 (fst (Reconcile_ensureNamespace c namespace))"
  by (auto simp: Reconcile_ensureNamespace_def case_prod_beta split: sum.splits option.splits)

lemma benign_createHelmInstallJob [intro!]:
  "extends_benign c0 c \<Longrightarrow> extends_benign c0 (fst (createHelmInstallJob c g namespace))"
  by (auto simp: createHelmInstallJob_def case_prod_beta split: sum.splits option.splits)

lemma benign_isJobCompleted [intro!]:
  "extends_benign c0 c \<Longrightarrow> extends_benign c0 (fst (isJobCompleted c namespace name))"
  by (auto simp: isJobCompleted_def case_prod_beta split: sum.splits option.splits)

lemma benign_updateStatusError [intro!]:
  "extends_benign c0 c \<Longrightarrow> extends_benign c0 (fst (updateStatusError c g err))"
  by (auto simp: updateStatusError_def Let_def case_prod_beta intro!: benign_Status_Update)

lemma benign_finalizeGpuOperator [intro!]:
  "extends_benign c0 c \<Longrightarrow> extends_benign c0 (fst (finalizeGpuOperator c g))"
  by (auto simp: finalizeGpuOperator_def Let_def case_prod_beta intro!: benign_Status_Update)

lemma benign_deletion [intro!]:
  "extends_benign c0 c \<Longrightarrow> extends_benign c0 (fst (Reconcile_deletion c g))"
  by (auto simp: Reconcile_deletion_def Let_def case_prod_beta split: option.splits)

lemma benign_addFinalizer [intro!]:
  "extends_benign c0 c \<Longrightarrow> extends_benign c0 (fst (Reconcile_addFinalizer c g))"
  by (auto simp: Reconcile_addFinalizer_def)

lemma benign_setProcessing [intro!]:
  "extends_benign c0 c \<Longrightarrow> extends_benign c0 (fst (Reconcile_setProcessing c g))"
  by (auto simp: Reconcile_setProcessing_def intro!: benign_Status_Update)

subsection \<open>The poll of the install job\<close>

lemma jobConditionsOutcome_exclusive:
  "fst (jobConditionsOutcome conds) \<Longrightarrow> snd (jobConditionsOutcome conds) = None"
  by (induction conds) (auto split: if_splits)

lemma jobConditionsOutcome_complete:
  "jobConditionsOutcome conds = (True, None) \<Longrightarrow>
   list_ex (conditionIsTrue JobComplete) conds
   \<and> \<not> list_ex (conditionIsTrue JobFailed)
         (takeWhile (\<lambda>cd. \<not> conditionIsTrue JobComplete cd) conds)"
  by (induction conds) (auto simp: conditionIsTrue_def split: if_splits)

lemma installJobSucceeded_complete:
  "installJobSucceeded c namespace \<Longrightarrow> installJobComplete c namespace"
  by (auto simp: installJobSucceeded_def installJobComplete_def
      split: option.splits dest: jobConditionsOutcome_complete)

lemma jobs_isJobCompleted [simp]: "jobs (fst (isJobCompleted c namespace name)) = jobs c"
  by (simp add: isJobCompleted_def case_prod_beta split: sum.splits)

lemma isJobCompleted_succeeded:
  assumes "fst (snd (isJobCompleted c namespace installJobName))"
  shows "installJobSucceeded (fst (isJobCompleted c namespace installJobName)) namespace"
proof -
  from assms obtain job where j: "jobs c (namespace, installJobName) = Some job"
    and o: "fst (jobConditionsOutcome (jobConditions job))"
    by (auto simp: isJobCompleted_def Get_Job_def Let_def
        split: env_step.splits option.splits if_splits)
  have "jobConditionsOutcome (jobConditions job) = (True, None)"
    using o jobConditionsOutcome_exclusive [OF o]
    by (cases "jobConditionsOutcome (jobConditions job)") simp
  then show ?thesis
    using j by (simp add: installJobSucceeded_def)
qed

subsection \<open>The shape of every run\<close>

lemma benign_run_ok: "extends_benign c0 c' \<Longrightarrow> run_ok c0 c'"
  by (auto simp: extends_benign_def run_ok_def)

lemma setReady_run_ok:
  assumes b: "extends_benign c0 c5"
      and s: "installJobSucceeded c5 (installNamespace g)"
  shows "run_ok c0 (fst (Reconcile_setReady c5 g))"
proof -
  from b obtain cs where cs: "calls c5 = calls c0 @ cs" "list_all benign cs"
    by (auto simp: extends_benign_def)
  define g' where "g' = g\<lparr>Status := (Status g)
      \<lparr>State := StateReady, ObservedGeneration := Generation g,
       InstalledVersion := DriverVersion (Spec g),
       Conditions := successConditions (Generation g) (clock c5)\<rparr>\<rparr>"
  have w: "calls (fst (Reconcile_setReady c5 g)) = calls c5 @ [CallStatusUpdate g']"
    by (simp add: g'_def Reconcile_setReady_def Let_def case_prod_beta successConditions_def
        split: option.splits)
  have j: "jobs (fst (Reconcile_setReady c5 g)) = jobs c5"
    by (simp add: Reconcile_setReady_def Let_def case_prod_beta split: option.splits)
  have "installNamespace g' = installNamespace g"
    by (simp add: g'_def installNamespace_def)
  then have ok: "ready_write_ok (fst (Reconcile_setReady c5 g)) g'"
    using s j by (simp add: ready_write_ok_def installJobSucceeded_def g'_def)
  show ?thesis
    unfolding run_ok_def using w cs ok by auto
qed

lemma install_run_ok:
  assumes b: "extends_benign c0 c"
  shows "run_ok c0 (fst (Reconcile_install c g))"
proof -
  define ns where "ns = installNamespace g"
  define c1 where "c1 = fst (Reconcile_ensureNamespace c ns)"
  define c2 where "c2 = fst (ensureServiceAccount c1 ns)"
  define c3 where "c3 = fst (ensureRBAC c2 ns)"
  define c4 where "c4 = fst (createHelmInstallJob c3 g ns)"
  define c5 where "c5 = fst (isJobCompleted c4 ns installJobName)"
  have b1: "extends_benign c0 c1" unfolding c1_def using b by (rule benign_ensureNamespace)
  have b2: "extends_benign c0 c2" unfolding c2_def using b1 by (rule benign_ensureServiceAccount)
  have b3: "extends_benign c0 c3" unfolding c3_def using b2 by (rule benign_ensureRBAC)
  have b4: "extends_benign c0 c4" unfolding c4_def using b3 by (rule benign_createHelmInstallJob)
  have b5: "extends_benign c0 c5" unfolding c5_def using b4 by (rule benign_isJobCompleted)
  have e: "run_ok c0 (fst (updateStatusError c' g err))" if "extends_benign c0 c'" for c' err
    using that by (intro benign_run_ok benign_updateStatusError)
  have r: "run_ok c0 (fst (Reconcile_setReady c5 g))"
    if "fst (snd (isJobCompleted c4 ns installJobName))"
    using b5 isJobCompleted_succeeded [OF that]
    unfolding c5_def ns_def by (rule setReady_run_ok)
  show ?thesis
    unfolding Reconcile_install_def Let_def case_prod_beta
    using e [OF b1] e [OF b2] e [OF b3] e [OF b4] e [OF b5] r benign_run_ok [OF b5]
    unfolding c5_def c4_def c3_def c2_def c1_def ns_def
    by (simp split: option.splits)
qed

lemma Reconcile_run_ok: "run_ok c (fst (Reconcile c req))"
proof -
  define c0 where "c0 = fst (Get_GpuOperator c (reqNamespace req, reqName req))"
  have b0: "extends_benign c c0"
    unfolding c0_def by (rule benign_Get_GpuOperator) simp
  have d: "run_ok c (fst (Reconcile_deletion c0 g))" for g
    using b0 by (intro benign_run_ok benign_deletion)
  have f: "extends_benign c (fst (Reconcile_addFinalizer c0 g))" for g
    using b0 by (rule benign_addFinalizer)
  have p: "extends_benign c (fst (Reconcile_setProcessing (fst (Reconcile_addFinalizer c0 g)) g'))"
    for g g'
    using f by (rule benign_setProcessing)
  have i: "run_ok c (fst (Reconcile_install
             (fst (Reconcile_setProcessing (fst (Reconcile_addFinalizer c0 g)) g')) g''))"
    for g g' g''
    using p by (rule install_run_ok)
  show ?thesis
    unfolding Reconcile_def Let_def case_prod_beta
    using benign_run_ok [OF b0] d benign_run_ok [OF f] benign_run_ok [OF p] i
    unfolding c0_def
    by (simp split: option.splits sum.splits)
qed

lemma benign_not_ready: "list_all benign cs \<Longrightarrow> CallStatusUpdate g \<in> set cs \<Longrightarrow> State (Status g) \<noteq> StateReady"
  by (auto simp: list_all_iff dest: bspec)

lemma benign_not_rbac: "benign call \<Longrightarrow> \<not> creates_rbac call"
  by (cases call) auto


subsection \<open>No function touches the RBAC objects\<close>

lemma rbacObjects_ensureServiceAccount [simp]:
  "rbacObjects (fst (ensureServiceAccount c namespace)) = rbacObjects c"
  by (simp add: ensureServiceAccount_def Let_def case_prod_beta split: sum.splits)

lemma rbacObjects_ensureRBAC [simp]:
  "rbacObjects (fst (ensureRBAC c namespace)) = rbacObjects c"
  by (simp add: ensureRBAC_def)

lemma rbacObjects_ensureNamespace [simp]:
  "rbacObjects (fst (Reconcile_ensureNamespace c namespace)) = rbacObjects c"
  by (simp add: Reconcile_ensureNamespace_def case_prod_beta split: sum.splits option.splits)

lemma rbacObjects_createHelmInstallJob [simp]:
  "rbacObjects (fst (createHelmInstallJob c g namespace)) = rbacObjects c"
  by (simp add: createHelmInstallJob_def case_prod_beta split: sum.splits option.splits)

lemma rbacObjects_isJobCompleted [simp]:
  "rbacObjects (fst (isJobCompleted c namespace name)) = rbacObjects c"
  by (simp add: isJobCompleted_def case_prod_beta split: sum.splits)

lemma rbacObjects_updateStatusError [simp]:
  "rbacObjects (fst (updateStatusError c g err)) = rbacObjects c"
  by (simp add: updateStatusError_def Let_def case_prod_beta)

lemma rbacObjects_finalizeGpuOperator [simp]:
  "rbacObjects (fst (finalizeGpuOperator c g)) = rbacObjects c"
  by (simp add: finalizeGpuOperator_def Let_def case_prod_beta)

lemma rbacObjects_deletion [simp]:
  "rbacObjects (fst (Reconcile_deletion c g)) = rbacObjects c"
  by (simp add: Reconcile_deletion_def Let_def case_prod_beta split: option.splits)

lemma rbacObjects_addFinalizer [simp]:
  "rbacObjects (fst (Reconcile_addFinalizer c g)) = rbacObjects c"
  by (simp add: Reconcile_addFinalizer_def)

lemma rbacObjects_setProcessing [simp]:
  "rbacObjects (fst (Reconcile_setProcessing c g)) = rbacObjects c"
  by (simp add: Reconcile_setProcessing_def)

lemma rbacObjects_setReady [simp]:
  "rbacObjects (fst (Reconcile_setReady c g)) = rbacObjects c"
  by (simp add: Reconcile_setReady_def Let_def case_prod_beta split: option.splits)

lemma rbacObjects_install [simp]:
  "rbacObjects (fst (Reconcile_install c g)) = rbacObjects c"
  by (simp add: Reconcile_install_def Let_def case_prod_beta split: option.splits)

lemma rbacObjects_Reconcile:
  "rbacObjects (fst (Reconcile c req)) = rbacObjects c"
  by (simp add: Reconcile_def Let_def case_prod_beta split: option.splits sum.splits)

subsection \<open>The resource: load and writes\<close>

lemma Get_GpuOperator_found:
  "gpuOperators c key = Some g \<Longrightarrow> \<not> rejects (next_step c) \<Longrightarrow>
   Get_GpuOperator c key = (log_call c (CallGet KGpuOperator (fst key) (snd key)), Inr g)"
  by (cases "next_step c") (simp_all add: Get_GpuOperator_def Let_def)

lemma rejects_rejection: "rejects s = (rejection s \<noteq> None)"
  by (cases s) simp_all

lemma Status_Update_result:
  assumes "gpuOperators c (metaNamespace g, metaName g) = Some s"
  shows "Status_Update c g =
     (case rejection (next_step c) of
        Some e \<Rightarrow> (log_call c (CallStatusUpdate g), g, Some e)
      | None \<Rightarrow> ((log_call c (CallStatusUpdate g))
              \<lparr>gpuOperators := (gpuOperators c)((metaNamespace g, metaName g) \<mapsto> s\<lparr>Status := Status g\<rparr>)\<rparr>,
            s\<lparr>Status := Status g\<rparr>, None))"
  using assms by (cases "next_step c") (simp_all add: Status_Update_def Let_def)

lemma Update_result:
  assumes "gpuOperators c (metaNamespace g, metaName g) = Some s"
  shows "Update c g =
     (case rejection (next_step c) of
        Some e \<Rightarrow> (log_call c (CallUpdate g), g, Some e)
      | None \<Rightarrow> ((log_call c (CallUpdate g))
              \<lparr>gpuOperators :=
                 (gpuOperators c)((metaNamespace g, metaName g) :=
                    (if DeletionTimestamp g \<noteq> None \<and> Finalizers g = [] then None
                     else Some (g\<lparr>Status := Status s\<rparr>)))\<rparr>,
            g\<lparr>Status := Status s\<rparr>, None))"
  using assms by (cases "next_step c") (simp_all add: Update_def Let_def)

lemma jobs_Create_Job:
  "jobs (fst (Create_Job c job)) =
     (if rejects (next_step c) \<or> jobs c (jobNamespace job, jobName job) \<noteq> None \<and> next_step c = Serve
      then jobs c else (jobs c)((jobNamespace job, jobName job) \<mapsto> job))"
  by (cases "next_step c") (auto simp: Create_Job_def Let_def log_call_def split: option.splits)

lemma next_step_log_call [simp]:
  "next_step (log_call c call) = env c (Suc (length (calls c)))"
  by (simp add: next_step_def log_call_def)

lemma fields_log_call [simp]:
  "gpuOperators (log_call c call) = gpuOperators c"
  "jobs (log_call c call) = jobs c"
  "namespaces (log_call c call) = namespaces c"
  "serviceAccounts (log_call c call) = serviceAccounts c"
  "calls (log_call c call) = calls c @ [call]"
  "env (log_call c call) = env c"
  "clock (log_call c call) = clock c"
  by (simp_all add: log_call_def)

subsection \<open>The install job: lookup, submission, outcome\<close>

lemma installJob_key [simp]:
  "jobNamespace (installJob namespace) = namespace"
  "jobName (installJob namespace) = installJobName"
  by (simp_all add: installJob_def Let_def)

lemma uninstallJob_key [simp]:
  "jobNamespace (uninstallJob namespace) = namespace"
  "jobName (uninstallJob namespace) = uninstallJobName"
  by (simp_all add: uninstallJob_def)

lemma Get_Job_found:
  "jobs c key = Some job \<Longrightarrow> \<not> rejects (next_step c) \<Longrightarrow>
   Get_Job c key = (log_call c (CallGet KJob (fst key) (snd key)), Inr job)"
  by (cases "next_step c") (simp_all add: Get_Job_def Let_def)

lemma Get_Job_missing:
  "jobs c key = None \<Longrightarrow> \<not> rejects (next_step c) \<Longrightarrow>
   Get_Job c key =
     (log_call c (CallGet KJob (fst key) (snd key)), Inl (errNotFound ''jobs.batch'' (snd key)))"
  by (cases "next_step c") (simp_all add: Get_Job_def Let_def)

lemma createHelmInstallJob_success_stores:
  assumes "createHelmInstallJob c g namespace = (c1, None)"
  shows "validateOwner (metaNamespace g) namespace = None
       \<and> jobs c1 (namespace, installJobName) \<noteq> None"
  using assms
  by (auto simp: createHelmInstallJob_def SetControllerReference_def Get_Job_def Create_Job_def
      log_call_def Let_def
      split: option.splits sum.splits env_step.splits if_splits)

lemma jobConditionsOutcome_stable:
  "fst (jobConditionsOutcome conds) \<or> snd (jobConditionsOutcome conds) \<noteq> None \<Longrightarrow>
   jobConditionsOutcome (conds @ later) = jobConditionsOutcome conds"
  by (induction conds) (auto split: if_splits)


subsection \<open>Tracking the observed generation\<close>

lemma obs_run_refl [simp]: "obs_run g0 c c"
  by (simp add: obs_run_def)

lemma obs_inv_run: "obs_inv g0 c0 c g \<Longrightarrow> obs_run g0 c0 c"
  by (simp add: obs_inv_def)

lemma obs_inv_Get_Namespace [intro!]:
  "obs_inv g0 c0 c g \<Longrightarrow> obs_inv g0 c0 (fst (Get_Namespace c x)) g"
  by (auto simp: obs_inv_def obs_run_def stored_tracks_def)
lemma obs_inv_Get_ServiceAccount [intro!]:
  "obs_inv g0 c0 c g \<Longrightarrow> obs_inv g0 c0 (fst (Get_ServiceAccount c x)) g"
  by (auto simp: obs_inv_def obs_run_def stored_tracks_def)
lemma obs_inv_Get_Job [intro!]:
  "obs_inv g0 c0 c g \<Longrightarrow> obs_inv g0 c0 (fst (Get_Job c x)) g"
  by (auto simp: obs_inv_def obs_run_def stored_tracks_def)
lemma obs_inv_Create_Namespace [intro!]:
  "obs_inv g0 c0 c g \<Longrightarrow> obs_inv g0 c0 (fst (Create_Namespace c x)) g"
  by (auto simp: obs_inv_def obs_run_def stored_tracks_def)
lemma obs_inv_Create_ServiceAccount [intro!]:
  "obs_inv g0 c0 c g \<Longrightarrow> obs_inv g0 c0 (fst (Create_ServiceAccount c x)) g"
  by (auto simp: obs_inv_def obs_run_def stored_tracks_def)
lemma obs_inv_Create_Job [intro!]:
  "obs_inv g0 c0 c g \<Longrightarrow> obs_inv g0 c0 (fst (Create_Job c x)) g"
  by (auto simp: obs_inv_def obs_run_def stored_tracks_def)

lemma obs_inv_Update:
  assumes "obs_inv g0 c0 c g" and "tracks g0 g'"
  shows "obs_inv g0 c0 (fst (Update c g')) (fst (snd (Update c g')))"
proof -
  have r: "obs_run g0 c0 (fst (Update c g'))"
    using assms(1) by (auto simp: obs_inv_def obs_run_def)
  have "stored_tracks g0 (fst (Update c g')) \<and> tracks g0 (fst (snd (Update c g')))"
    using assms
    by (cases "next_step c")
       (auto simp: obs_inv_def stored_tracks_def tracks_def Update_def Let_def log_call_def
          split: option.splits)
  then show ?thesis using r by (simp add: obs_inv_def)
qed

lemma obs_inv_Status_Update:
  assumes "obs_inv g0 c0 c g" and "tracks g0 g'" and "State (Status g') \<noteq> StateReady"
  shows "obs_inv g0 c0 (fst (Status_Update c g')) (fst (snd (Status_Update c g')))"
proof -
  have r: "obs_run g0 c0 (fst (Status_Update c g'))"
    using assms by (auto simp: obs_inv_def obs_run_def tracks_def)
  have "stored_tracks g0 (fst (Status_Update c g')) \<and> tracks g0 (fst (snd (Status_Update c g')))"
    using assms
    by (cases "next_step c")
       (auto simp: obs_inv_def stored_tracks_def tracks_def Status_Update_def Let_def log_call_def
          split: option.splits)
  then show ?thesis using r by (simp add: obs_inv_def)
qed

lemma obs_run_Status_Update_ready:
  assumes "obs_inv g0 c0 c g" and "Generation g' = Generation g0"
      and "State (Status g') = StateReady" and "ObservedGeneration (Status g') = Generation g0"
  shows "obs_run g0 c0 (fst (Status_Update c g'))"
  using assms by (auto simp: obs_inv_def obs_run_def)

lemma obs_inv_ensureServiceAccount [intro!]:
  "obs_inv g0 c0 c g \<Longrightarrow> obs_inv g0 c0 (fst (ensureServiceAccount c namespace)) g"
  by (auto simp: ensureServiceAccount_def Let_def case_prod_beta split: sum.splits)

lemma obs_inv_ensureRBAC [intro!]:
  "obs_inv g0 c0 c g \<Longrightarrow> obs_inv g0 c0 (fst (ensureRBAC c namespace)) g"
  by (simp add: ensureRBAC_def)

lemma obs_inv_ensureNamespace [intro!]:
  "obs_inv g0 c0 c g \<Longrightarrow> obs_inv g0 c0 (fst (Reconcile_ensureNamespace c namespace)) g"
  by (auto simp: Reconcile_ensureNamespace_def case_prod_beta split: sum.splits option.splits)

lemma obs_inv_createHelmInstallJob [intro!]:
  "obs_inv g0 c0 c g \<Longrightarrow> obs_inv g0 c0 (fst (createHelmInstallJob c g' namespace)) g"
  by (auto simp: createHelmInstallJob_def case_prod_beta split: sum.splits option.splits)

lemma obs_inv_isJobCompleted [intro!]:
  "obs_inv g0 c0 c g \<Longrightarrow> obs_inv g0 c0 (fst (isJobCompleted c namespace name)) g"
  by (auto simp: isJobCompleted_def case_prod_beta split: sum.splits option.splits)

lemma tracks_status_fields:
  "tracks g0 g \<Longrightarrow> tracks g0 (g\<lparr>Status := (Status g)\<lparr>State := s\<rparr>\<rparr>)"
  "tracks g0 g \<Longrightarrow> tracks g0 (g\<lparr>Status := (Status g)\<lparr>State := s, Conditions := cs\<rparr>\<rparr>)"
  "tracks g0 g \<Longrightarrow> tracks g0 (g\<lparr>Finalizers := fs\<rparr>)"
  by (simp_all add: tracks_def)

lemma obs_run_updateStatusError:
  assumes "obs_inv g0 c0 c g"
  shows "obs_run g0 c0 (fst (updateStatusError c g err))"
proof -
  have "obs_inv g0 c0 (fst (Status_Update c g')) (fst (snd (Status_Update c g')))"
    if "g' = g\<lparr>Status := (Status g)\<lparr>State := StateError, Conditions := cs\<rparr>\<rparr>" for g' cs
    using assms that by (intro obs_inv_Status_Update) (auto simp: obs_inv_def tracks_def)
  then show ?thesis
    by (auto simp: updateStatusError_def Let_def case_prod_beta intro!: obs_inv_run)
qed

lemma obs_inv_finalizeGpuOperator:
  assumes "obs_inv g0 c0 c g"
  shows "obs_inv g0 c0 (fst (finalizeGpuOperator c g)) (fst (snd (finalizeGpuOperator c g)))"
proof -
  define g' where "g' = g\<lparr>Status := (Status g)\<lparr>State := StateDeleting\<rparr>\<rparr>"
  have "obs_inv g0 c0 (fst (Status_Update c g')) (fst (snd (Status_Update c g')))"
    using assms by (intro obs_inv_Status_Update) (auto simp: obs_inv_def tracks_def g'_def)
  then show ?thesis
    by (auto simp: finalizeGpuOperator_def Let_def case_prod_beta g'_def)
qed

lemma obs_run_deletion:
  assumes "obs_inv g0 c0 c g"
  shows "obs_run g0 c0 (fst (Reconcile_deletion c g))"
proof -
  let ?f = "finalizeGpuOperator c g"
  have i: "obs_inv g0 c0 (fst ?f) (fst (snd ?f))"
    using assms by (rule obs_inv_finalizeGpuOperator)
  have "obs_inv g0 c0 (fst (Update (fst ?f) (RemoveFinalizer (fst (snd ?f)) finalizerName)))
          (fst (snd (Update (fst ?f) (RemoveFinalizer (fst (snd ?f)) finalizerName))))"
    using i by (rule obs_inv_Update) (use i in \<open>simp add: obs_inv_def tracks_def RemoveFinalizer_def\<close>)
  then show ?thesis
    using assms i
    by (auto simp: Reconcile_deletion_def Let_def case_prod_beta split: option.splits
        intro!: obs_inv_run)
qed

lemma obs_inv_addFinalizer:
  assumes "obs_inv g0 c0 c g"
  shows "obs_inv g0 c0 (fst (Reconcile_addFinalizer c g)) (fst (snd (Reconcile_addFinalizer c g)))"
proof -
  have "obs_inv g0 c0 (fst (Update c (AddFinalizer g finalizerName)))
          (fst (snd (Update c (AddFinalizer g finalizerName))))"
    using assms by (rule obs_inv_Update) (use assms in \<open>simp add: obs_inv_def tracks_def AddFinalizer_def\<close>)
  then show ?thesis
    using assms by (simp add: Reconcile_addFinalizer_def)
qed

lemma obs_inv_setProcessing:
  assumes "obs_inv g0 c0 c g"
  shows "obs_inv g0 c0 (fst (Reconcile_setProcessing c g)) (fst (snd (Reconcile_setProcessing c g)))"
proof -
  define g' where "g' = g\<lparr>Status := (Status g)\<lparr>State := StateProcessing\<rparr>\<rparr>"
  have "obs_inv g0 c0 (fst (Status_Update c g')) (fst (snd (Status_Update c g')))"
    using assms by (intro obs_inv_Status_Update) (auto simp: obs_inv_def tracks_def g'_def)
  then show ?thesis
    using assms by (simp add: Reconcile_setProcessing_def g'_def)
qed

lemma obs_run_setReady:
  assumes "obs_inv g0 c0 c g"
  shows "obs_run g0 c0 (fst (Reconcile_setReady c g))"
proof -
  have "obs_run g0 c0 (fst (Status_Update c g'))"
    if "g' = g\<lparr>Status := (Status g)\<lparr>State := StateReady, ObservedGeneration := Generation g,
         InstalledVersion := v, Conditions := cs\<rparr>\<rparr>" for g' v cs
    using assms that by (intro obs_run_Status_Update_ready) (auto simp: obs_inv_def tracks_def)
  then show ?thesis
    by (simp add: Reconcile_setReady_def Let_def case_prod_beta split: option.splits)
qed

lemma obs_run_install:
  assumes i: "obs_inv g0 c0 c g"
  shows "obs_run g0 c0 (fst (Reconcile_install c g))"
proof -
  define ns where "ns = installNamespace g"
  define c1 where "c1 = fst (Reconcile_ensureNamespace c ns)"
  define c2 where "c2 = fst (ensureServiceAccount c1 ns)"
  define c3 where "c3 = fst (ensureRBAC c2 ns)"
  define c4 where "c4 = fst (createHelmInstallJob c3 g ns)"
  define c5 where "c5 = fst (isJobCompleted c4 ns installJobName)"
  have i1: "obs_inv g0 c0 c1 g" unfolding c1_def using i by (rule obs_inv_ensureNamespace)
  have i2: "obs_inv g0 c0 c2 g" unfolding c2_def using i1 by (rule obs_inv_ensureServiceAccount)
  have i3: "obs_inv g0 c0 c3 g" unfolding c3_def using i2 by (rule obs_inv_ensureRBAC)
  have i4: "obs_inv g0 c0 c4 g" unfolding c4_def using i3 by (rule obs_inv_createHelmInstallJob)
  have i5: "obs_inv g0 c0 c5 g" unfolding c5_def using i4 by (rule obs_inv_isJobCompleted)
  have e: "obs_run g0 c0 (fst (updateStatusError c' g err))" if "obs_inv g0 c0 c' g" for c' err
    using that by (rule obs_run_updateStatusError)
  show ?thesis
    unfolding Reconcile_install_def Let_def case_prod_beta
    using e [OF i1] e [OF i2] e [OF i3] e [OF i4] e [OF i5] obs_run_setReady [OF i5]
      obs_inv_run [OF i5]
    unfolding c5_def c4_def c3_def c2_def c1_def ns_def
    by (simp split: option.splits)
qed

lemma obs_run_Reconcile:
  assumes g: "gpuOperators c (reqNamespace req, reqName req) = Some g0"
      and key: "metaNamespace g0 = reqNamespace req" "metaName g0 = reqName req"
  shows "obs_run g0 c (fst (Reconcile c req))"
proof (cases "rejects (next_step c)")
  case True
  then show ?thesis
    by (cases "next_step c")
       (auto simp: Reconcile_def Get_GpuOperator_def Let_def obs_run_def log_call_def)
next
  case False
  define c0 where "c0 = log_call c (CallGet KGpuOperator (reqNamespace req) (reqName req))"
  have load: "Get_GpuOperator c (reqNamespace req, reqName req) = (c0, Inr g0)"
    using Get_GpuOperator_found [OF g False] by (simp add: c0_def)
  have i0: "obs_inv g0 c c0 g0"
    using g key by (simp add: obs_inv_def obs_run_def c0_def stored_tracks_def tracks_def)
  have d: "obs_run g0 c (fst (Reconcile_deletion c0 g0))"
    using i0 by (rule obs_run_deletion)
  let ?f = "Reconcile_addFinalizer c0 g0"
  have i1: "obs_inv g0 c (fst ?f) (fst (snd ?f))"
    using i0 by (rule obs_inv_addFinalizer)
  let ?p = "Reconcile_setProcessing (fst ?f) (fst (snd ?f))"
  have i2: "obs_inv g0 c (fst ?p) (fst (snd ?p))"
    using i1 by (rule obs_inv_setProcessing)
  have r: "obs_run g0 c (fst (Reconcile_install (fst ?p) (fst (snd ?p))))"
    using i2 by (rule obs_run_install)
  show ?thesis
    unfolding Reconcile_def load
    using d obs_inv_run [OF i1] obs_inv_run [OF i2] r
    by (simp add: case_prod_beta split: option.splits)
qed

subsection \<open>Runs in which every call is served\<close>


lemma installNamespace_nonempty [simp]: "installNamespace g \<noteq> []"
  by (simp add: installNamespace_def)



section \<open>Runs of the example clusters\<close>

text \<open>The first reconcile of the fresh resource: everything is created, the job is polled.\<close>

lemma fresh_run:
  "Reconcile freshCluster exampleRequest =
     (freshCluster
        \<lparr>gpuOperators := [(''gpu-operator'', ''my-gpu-operator'') \<mapsto>
            freshGpuOperator\<lparr>Finalizers := [finalizerName],
               Status := (Status freshGpuOperator)\<lparr>State := StateProcessing\<rparr>\<rparr>],
         namespaces := [''gpu-operator'' \<mapsto> ()],
         serviceAccounts := [(''gpu-operator'', ''gpu-operator'') \<mapsto> exampleServiceAccount],
         jobs := [(''gpu-operator'', ''gpu-operator-install'') \<mapsto>
            (installJob ''gpu-operator'')\<lparr>jobOwnerReferences :=
               [\<lparr>ownerKind = ''GpuOperator'', ownerName = ''my-gpu-operator'',
                 ownerController = True, ownerBlockOwnerDeletion = True\<rparr>]\<rparr>],
         calls := [CallGet KGpuOperator ''gpu-operator'' ''my-gpu-operator'',
                   CallUpdate (freshGpuOperator\<lparr>Finalizers := [finalizerName]\<rparr>),
                   CallStatusUpdate (freshGpuOperator\<lparr>Finalizers := [finalizerName],
                      Status := (Status freshGpuOperator)\<lparr>State := StateProcessing\<rparr>\<rparr>),
                   CallGet KNamespace [] ''gpu-operator'',
                   CallCreate KNamespace [] ''gpu-operator'',
                   CallGet KServiceAccount ''gpu-operator'' ''gpu-operator'',
                   CallCreate KServiceAccount ''gpu-operator'' ''gpu-operator'',
                   CallGet KJob ''gpu-operator'' ''gpu-operator-install'',
                   CallCreate KJob ''gpu-operator'' ''gpu-operator-install'',
                   CallGet KJob ''gpu-operator'' ''gpu-operator-install'']\<rparr>,
      \<lparr>Requeue = False, RequeueAfter = 10 * Second\<rparr>, None)"
  by (simp add: ctrl_defs client_defs example_defs const_defs Let_def)

text \<open>A reconcile of the converged resource: two status writes, Processing and Ready.\<close>

lemma converged_run:
  "Reconcile convergedCluster exampleRequest =
     (convergedCluster
        \<lparr>gpuOperators := [(''gpu-operator'', ''my-gpu-operator'') \<mapsto> convergedReadyWrite],
         calls := [CallGet KGpuOperator ''gpu-operator'' ''my-gpu-operator'',
                   CallStatusUpdate (convergedGpuOperator
                      \<lparr>Status := (Status convergedGpuOperator)\<lparr>State := StateProcessing\<rparr>\<rparr>),
                   CallGet KNamespace [] ''gpu-operator'',
                   CallGet KServiceAccount ''gpu-operator'' ''gpu-operator'',
                   CallGet KJob ''gpu-operator'' ''gpu-operator-install'',
                   CallGet KJob ''gpu-operator'' ''gpu-operator-install'',
                   CallStatusUpdate convergedReadyWrite]\<rparr>,
      emptyResult, None)"
  by (simp add: ctrl_defs client_defs example_defs const_defs Let_def)

text \<open>The steps of the first reconcile of the fresh resource all succeed; the poll is pending.\<close>

lemmas fresh_steps = freshLoaded_def freshFinalizer_def freshProcessing_def freshNamespace_def
  freshAccount_def freshSubmitted_def freshPolled_def

lemma fresh_loaded: "freshLoaded = (fst freshLoaded, Inr freshGpuOperator)"
  by (simp add: freshLoaded_def Get_GpuOperator_def next_step_def log_call_def Let_def
      freshCluster_def exampleRequest_def)

lemma fresh_finalizer: "snd (snd freshFinalizer) = None"
  by (simp add: fresh_steps ctrl_defs client_defs example_defs const_defs Let_def)

lemma fresh_processing: "snd (snd freshProcessing) = None"
  by (simp add: fresh_steps ctrl_defs client_defs example_defs const_defs Let_def)

lemma fresh_namespace: "snd freshNamespace = None"
  by (simp add: fresh_steps ctrl_defs client_defs example_defs const_defs Let_def)

lemma fresh_account: "snd freshAccount = None"
  by (simp add: fresh_steps ctrl_defs client_defs example_defs const_defs Let_def)

lemma fresh_submitted: "snd freshSubmitted = None"
  by (simp add: fresh_steps ctrl_defs client_defs example_defs const_defs Let_def)

lemma fresh_polled: "snd freshPolled = (False, None)"
  by (simp add: fresh_steps ctrl_defs client_defs example_defs const_defs Let_def)

text \<open>A reconcile with the failed install job: one status write, Error.\<close>

lemma failed_run:
  "Reconcile failedCluster exampleRequest =
     (failedCluster
        \<lparr>gpuOperators := [(''gpu-operator'', ''my-gpu-operator'') \<mapsto> failedErrorWrite],
         calls := [CallGet KGpuOperator ''gpu-operator'' ''my-gpu-operator'',
                   CallGet KNamespace [] ''gpu-operator'',
                   CallGet KServiceAccount ''gpu-operator'' ''gpu-operator'',
                   CallGet KJob ''gpu-operator'' ''gpu-operator-install'',
                   CallGet KJob ''gpu-operator'' ''gpu-operator-install'',
                   CallStatusUpdate failedErrorWrite]\<rparr>,
      emptyResult, Some (PlainError ''helm installation job failed: timeout''))"
  by (simp add: ctrl_defs client_defs example_defs const_defs Let_def)

text \<open>The reconcile that finds the install job completed: one status write, Ready.\<close>

lemma completing_run:
  "Reconcile completingCluster exampleRequest =
     (completingCluster
        \<lparr>gpuOperators := [(''gpu-operator'', ''my-gpu-operator'') \<mapsto> completingReadyWrite],
         calls := [CallGet KGpuOperator ''gpu-operator'' ''my-gpu-operator'',
                   CallGet KNamespace [] ''gpu-operator'',
                   CallGet KServiceAccount ''gpu-operator'' ''gpu-operator'',
                   CallGet KJob ''gpu-operator'' ''gpu-operator-install'',
                   CallGet KJob ''gpu-operator'' ''gpu-operator-install'',
                   CallStatusUpdate completingReadyWrite]\<rparr>,
      emptyResult, None)"
  by (simp add: ctrl_defs client_defs example_defs const_defs Let_def)


section \<open>The claims\<close>

subsection \<open>C1: reconciling a converged resource\<close>




subsection \<open>C2: a failed install job\<close>




subsection \<open>C3: when the observed generation advances\<close>

text \<open>
  C3 as stated fails for the Error outcome: the status write that reports the failed
  install job has state Error and observed generation 1 while the generation is 2, and
  that is what the store holds afterwards.
\<close>

theorem error_write_keeps_observed_generation_counterexample:
  "CallStatusUpdate failedErrorWrite
     \<in> set (new_calls failedCluster (fst (Reconcile failedCluster exampleRequest)))
   \<and> State (Status failedErrorWrite) = StateError
   \<and> Generation failedErrorWrite = 2
   \<and> ObservedGeneration (Status failedErrorWrite) = 1
   \<and> map_option (\<lambda>g. ObservedGeneration (Status g))
        (gpuOperators (fst (Reconcile failedCluster exampleRequest)) (''gpu-operator'', ''my-gpu-operator''))
      = Some 1"
  by (simp add: failed_run new_calls_def)
     (simp add: failedCluster_def failedErrorWrite_def processingGpuOperator_def)

text \<open>
  C3, amended. For every status write of a reconcile of a stored resource, whatever the
  server answers: the written object has the resource's generation, and its
  \<open>status.observedGeneration\<close> is that generation when the written state is Ready and
  the observed generation the resource was loaded with when it is not (Processing, Error,
  Deleting).
\<close>

theorem observed_generation_advances_on_ready_only:
  assumes "gpuOperators c (reqNamespace req, reqName req) = Some g0"
      and "metaNamespace g0 = reqNamespace req" and "metaName g0 = reqName req"
      and "CallStatusUpdate g \<in> set (new_calls c (fst (Reconcile c req)))"
  shows "Generation g = Generation g0
       \<and> ObservedGeneration (Status g) =
           (if State (Status g) = StateReady then Generation g0
            else ObservedGeneration (Status g0))"
proof -
  from obs_run_Reconcile [OF assms(1-3)]
  obtain cs where cs: "calls (fst (Reconcile c req)) = calls c @ cs" "list_all (obs_ok g0) cs"
    by (auto simp: obs_run_def)
  have "CallStatusUpdate g \<in> set cs"
    using assms(4) cs(1) by (simp add: new_calls_def)
  then have "obs_ok g0 (CallStatusUpdate g)"
    using cs(2) by (auto simp: list_all_iff)
  then show ?thesis by simp
qed

theorem observed_generation_advances_on_ready_only_witness:
  "gpuOperators completingCluster (reqNamespace exampleRequest, reqName exampleRequest) = Some processingGpuOperator
   \<and> metaNamespace processingGpuOperator = reqNamespace exampleRequest
   \<and> metaName processingGpuOperator = reqName exampleRequest
   \<and> CallStatusUpdate completingReadyWrite
        \<in> set (new_calls completingCluster (fst (Reconcile completingCluster exampleRequest)))
   \<and> State (Status completingReadyWrite) = StateReady
   \<and> ObservedGeneration (Status processingGpuOperator) = 1
   \<and> Generation processingGpuOperator = 2
   \<and> Generation completingReadyWrite = Generation processingGpuOperator
   \<and> ObservedGeneration (Status completingReadyWrite) = Generation processingGpuOperator"
proof -
  have a: "gpuOperators completingCluster (reqNamespace exampleRequest, reqName exampleRequest) = Some processingGpuOperator"
    by (simp add: completingCluster_def exampleRequest_def)
  have b: "metaNamespace processingGpuOperator = reqNamespace exampleRequest"
    by (simp add: processingGpuOperator_def exampleRequest_def)
  have c: "metaName processingGpuOperator = reqName exampleRequest"
    by (simp add: processingGpuOperator_def exampleRequest_def)
  have d: "CallStatusUpdate completingReadyWrite
        \<in> set (new_calls completingCluster (fst (Reconcile completingCluster exampleRequest)))"
    by (simp add: completing_run new_calls_def) (simp add: completingCluster_def)
  have e: "State (Status completingReadyWrite) = StateReady"
    by (simp add: completingReadyWrite_def)
  have f: "ObservedGeneration (Status processingGpuOperator) = 1 \<and> Generation processingGpuOperator = 2"
    by (simp add: processingGpuOperator_def)
  show ?thesis
    using a b c d e f observed_generation_advances_on_ready_only [OF a b c d]
    by simp
qed

subsection \<open>C4: ensure-present on a create race\<close>

text \<open>
  C4 fails for the service account. In \<open>racedCluster\<close> the service account is absent at the
  Get and created by another client before the controller's Create: \<open>Reconcile\<close> returns
  the AlreadyExists error and leaves the resource in state Error, although the service
  account exists. The same race on the namespace (\<open>namespaceRacedCluster\<close>) is taken as
  success: the reconcile goes on to the job and returns the ten-second requeue.
\<close>

theorem service_account_race_is_an_error:
  "serviceAccounts racedCluster (''gpu-operator'', ''gpu-operator'') = None
   \<and> snd (Reconcile racedCluster exampleRequest) =
        (emptyResult, Some (errAlreadyExists ''serviceaccounts'' ''gpu-operator''))
   \<and> serviceAccounts (fst (Reconcile racedCluster exampleRequest)) (''gpu-operator'', ''gpu-operator'')
        = Some exampleServiceAccount
   \<and> map_option (\<lambda>g. State (Status g))
        (gpuOperators (fst (Reconcile racedCluster exampleRequest)) (''gpu-operator'', ''my-gpu-operator''))
        = Some StateError
   \<and> namespaces namespaceRacedCluster ''gpu-operator'' = None
   \<and> snd (Reconcile namespaceRacedCluster exampleRequest) =
        (\<lparr>Requeue = False, RequeueAfter = 10 * Second\<rparr>, None)
   \<and> namespaces (fst (Reconcile namespaceRacedCluster exampleRequest)) ''gpu-operator'' = Some ()"
  by (simp add: ctrl_defs client_defs example_defs const_defs Let_def)

subsection \<open>C5: the poll of the install job\<close>

text \<open>
  C5. (1) When the job is missing and the Get is not rejected, \<open>isJobCompleted\<close> returns
  \<open>false, nil\<close>: pending, not an error. (2) Whenever a reconcile reaches the poll (the
  resource is loaded and not being deleted, the finalizer, the Processing status, the
  namespace, the service account and the install job are in place) and the poll returns
  \<open>false, nil\<close>, \<open>Reconcile\<close> returns \<open>RequeueAfter\<close> of ten seconds and no error, in the
  cluster the poll left. (3) The loop over the job's conditions never answers both
  completed and failed, and (4) once a condition has decided, conditions that follow do
  not change the answer.
\<close>

theorem pending_poll_requeues:
  "(jobs c (namespace, name) = None \<and> \<not> rejects (next_step c) \<longrightarrow>
      isJobCompleted c namespace name = (log_call c (CallGet KJob namespace name), False, None))
   \<and> (Get_GpuOperator c (reqNamespace req, reqName req) = (c0, Inr g)
       \<and> DeletionTimestamp g = None
       \<and> Reconcile_addFinalizer c0 g = (c1, g1, None)
       \<and> Reconcile_setProcessing c1 g1 = (c2, g2, None)
       \<and> Reconcile_ensureNamespace c2 (installNamespace g2) = (c3, None)
       \<and> ensureServiceAccount c3 (installNamespace g2) = (c4, None)
       \<and> createHelmInstallJob c4 g2 (installNamespace g2) = (c5, None)
       \<and> isJobCompleted c5 (installNamespace g2) installJobName = (c6, False, None) \<longrightarrow>
      Reconcile c req = (c6, \<lparr>Requeue = False, RequeueAfter = 10 * Second\<rparr>, None))
   \<and> \<not> (fst (jobConditionsOutcome conds) \<and> snd (jobConditionsOutcome conds) \<noteq> None)
   \<and> (fst (jobConditionsOutcome conds) \<or> snd (jobConditionsOutcome conds) \<noteq> None \<longrightarrow>
      jobConditionsOutcome (conds @ later) = jobConditionsOutcome conds)"
proof (intro conjI impI)
  assume "jobs c (namespace, name) = None \<and> \<not> rejects (next_step c)"
  then show "isJobCompleted c namespace name = (log_call c (CallGet KJob namespace name), False, None)"
    using Get_Job_missing [of c "(namespace, name)"]
    by (simp add: isJobCompleted_def IsNotFound_def errNotFound_def)
next
  assume "Get_GpuOperator c (reqNamespace req, reqName req) = (c0, Inr g)
       \<and> DeletionTimestamp g = None
       \<and> Reconcile_addFinalizer c0 g = (c1, g1, None)
       \<and> Reconcile_setProcessing c1 g1 = (c2, g2, None)
       \<and> Reconcile_ensureNamespace c2 (installNamespace g2) = (c3, None)
       \<and> ensureServiceAccount c3 (installNamespace g2) = (c4, None)
       \<and> createHelmInstallJob c4 g2 (installNamespace g2) = (c5, None)
       \<and> isJobCompleted c5 (installNamespace g2) installJobName = (c6, False, None)"
  then show "Reconcile c req = (c6, \<lparr>Requeue = False, RequeueAfter = 10 * Second\<rparr>, None)"
    by (simp add: Reconcile_def Reconcile_install_def ensureRBAC_def)
next
  show "\<not> (fst (jobConditionsOutcome conds) \<and> snd (jobConditionsOutcome conds) \<noteq> None)"
    using jobConditionsOutcome_exclusive [of conds] by auto
next
  assume "fst (jobConditionsOutcome conds) \<or> snd (jobConditionsOutcome conds) \<noteq> None"
  then show "jobConditionsOutcome (conds @ later) = jobConditionsOutcome conds"
    by (rule jobConditionsOutcome_stable)
qed

theorem pending_poll_requeues_witness:
  "jobs freshCluster (''gpu-operator'', installJobName) = None
   \<and> \<not> rejects (next_step freshCluster)
   \<and> isJobCompleted freshCluster ''gpu-operator'' installJobName =
        (log_call freshCluster (CallGet KJob ''gpu-operator'' installJobName), False, None)
   \<and> Get_GpuOperator freshCluster (reqNamespace exampleRequest, reqName exampleRequest) =
        (fst freshLoaded, Inr freshGpuOperator)
   \<and> DeletionTimestamp freshGpuOperator = None
   \<and> Reconcile_addFinalizer (fst freshLoaded) freshGpuOperator =
        (fst freshFinalizer, fst (snd freshFinalizer), None)
   \<and> Reconcile_setProcessing (fst freshFinalizer) (fst (snd freshFinalizer)) =
        (fst freshProcessing, fst (snd freshProcessing), None)
   \<and> Reconcile_ensureNamespace (fst freshProcessing) (installNamespace (fst (snd freshProcessing))) =
        (fst freshNamespace, None)
   \<and> ensureServiceAccount (fst freshNamespace) (installNamespace (fst (snd freshProcessing))) =
        (fst freshAccount, None)
   \<and> createHelmInstallJob (fst freshAccount) (fst (snd freshProcessing))
          (installNamespace (fst (snd freshProcessing))) =
        (fst freshSubmitted, None)
   \<and> isJobCompleted (fst freshSubmitted) (installNamespace (fst (snd freshProcessing))) installJobName =
        (fst freshPolled, False, None)
   \<and> Reconcile freshCluster exampleRequest =
        (fst freshPolled, \<lparr>Requeue = False, RequeueAfter = 10 * Second\<rparr>, None)
   \<and> fst (jobConditionsOutcome (jobConditions completedJob))
   \<and> jobConditionsOutcome (jobConditions completedJob @ jobConditions timedOutJob) =
        jobConditionsOutcome (jobConditions completedJob)"
proof -
  note t = pending_poll_requeues [where c = freshCluster and namespace = "''gpu-operator''"
      and name = installJobName and req = exampleRequest and ?c0.0 = "fst freshLoaded"
      and g = freshGpuOperator and ?c1.0 = "fst freshFinalizer" and ?g1.0 = "fst (snd freshFinalizer)"
      and ?c2.0 = "fst freshProcessing" and ?g2.0 = "fst (snd freshProcessing)"
      and ?c3.0 = "fst freshNamespace" and ?c4.0 = "fst freshAccount"
      and ?c5.0 = "fst freshSubmitted" and ?c6.0 = "fst freshPolled"
      and conds = "jobConditions completedJob" and later = "jobConditions timedOutJob"]
  have a: "jobs freshCluster (''gpu-operator'', installJobName) = None \<and> \<not> rejects (next_step freshCluster)"
    by (simp add: freshCluster_def next_step_def)
  have b: "Get_GpuOperator freshCluster (reqNamespace exampleRequest, reqName exampleRequest) =
        (fst freshLoaded, Inr freshGpuOperator)"
    using fresh_loaded by (simp add: freshLoaded_def)
  have c: "DeletionTimestamp freshGpuOperator = None"
    by (simp add: freshGpuOperator_def)
  have d: "Reconcile_addFinalizer (fst freshLoaded) freshGpuOperator =
        (fst freshFinalizer, fst (snd freshFinalizer), None)"
    using fresh_finalizer by (simp add: freshFinalizer_def prod_eq_iff)
  have e: "Reconcile_setProcessing (fst freshFinalizer) (fst (snd freshFinalizer)) =
        (fst freshProcessing, fst (snd freshProcessing), None)"
    using fresh_processing by (simp add: freshProcessing_def prod_eq_iff)
  have f: "Reconcile_ensureNamespace (fst freshProcessing) (installNamespace (fst (snd freshProcessing))) =
        (fst freshNamespace, None)"
    using fresh_namespace by (simp add: freshNamespace_def prod_eq_iff)
  have g: "ensureServiceAccount (fst freshNamespace) (installNamespace (fst (snd freshProcessing))) =
        (fst freshAccount, None)"
    using fresh_account by (simp add: freshAccount_def prod_eq_iff)
  have h: "createHelmInstallJob (fst freshAccount) (fst (snd freshProcessing))
          (installNamespace (fst (snd freshProcessing))) = (fst freshSubmitted, None)"
    using fresh_submitted by (simp add: freshSubmitted_def prod_eq_iff)
  have i: "isJobCompleted (fst freshSubmitted) (installNamespace (fst (snd freshProcessing))) installJobName =
        (fst freshPolled, False, None)"
    using fresh_polled by (simp add: freshPolled_def prod_eq_iff)
  have j: "fst (jobConditionsOutcome (jobConditions completedJob))"
    by (simp add: completedJob_def)
  from t a b c d e f g h i j show ?thesis by blast
qed

subsection \<open>C6: no premature Ready\<close>

text \<open>
  A status write with state Ready is the last call of its run, after the poll has
  answered completed.
\<close>

lemma ready_write_follows_poll:
  assumes "Reconcile c req = (c', out)"
      and "CallStatusUpdate g \<in> set (new_calls c c')"
      and "State (Status g) = StateReady"
  shows "installJobSucceeded c' (installNamespace g)
       \<and> ObservedGeneration (Status g) = Generation g
       \<and> InstalledVersion (Status g) = DriverVersion (Spec g)"
proof -
  have "run_ok c c'"
    using Reconcile_run_ok [of c req] assms(1) by simp
  then obtain cs where cs: "calls c' = calls c @ cs"
    and d: "list_all benign cs \<or>
         (\<exists>cs' g. cs = cs' @ [CallStatusUpdate g] \<and> list_all benign cs' \<and> ready_write_ok c' g)"
    by (auto simp: run_ok_def)
  have m: "CallStatusUpdate g \<in> set cs"
    using assms(2) cs by (simp add: new_calls_def)
  from d show ?thesis
  proof
    assume "list_all benign cs"
    then show ?thesis using benign_not_ready [OF _ m] assms(3) by simp
  next
    assume "\<exists>cs' g. cs = cs' @ [CallStatusUpdate g] \<and> list_all benign cs' \<and> ready_write_ok c' g"
    then obtain cs' g' where e: "cs = cs' @ [CallStatusUpdate g']" "list_all benign cs'"
      "ready_write_ok c' g'" by blast
    have "g = g'"
      using m e(1) benign_not_ready [OF e(2), of g] assms(3) by auto
    then show ?thesis using e(3) by (simp add: ready_write_ok_def)
  qed
qed

text \<open>
  C6. In every reconcile, whatever the server answers: when a status write with state
  Ready is made, the install job stored in the resource's install namespace has a
  Complete condition with status True, with no Failed condition of status True before it
  (its terminal condition is Succeeded), and it is this condition that decided the poll
  of this reconcile; the written status has \<open>observedGeneration\<close> equal to the generation
  and \<open>installedVersion\<close> equal to \<open>spec.driverVersion\<close>.
\<close>

theorem ready_write_has_succeeded_job:
  assumes "Reconcile c req = (c', out)"
      and "CallStatusUpdate g \<in> set (new_calls c c')"
      and "State (Status g) = StateReady"
  shows "installJobComplete c' (installNamespace g)
       \<and> installJobSucceeded c' (installNamespace g)
       \<and> ObservedGeneration (Status g) = Generation g
       \<and> InstalledVersion (Status g) = DriverVersion (Spec g)"
  using ready_write_follows_poll [OF assms] installJobSucceeded_complete by blast

theorem ready_write_has_succeeded_job_witness:
  "Reconcile convergedCluster exampleRequest =
     (fst (Reconcile convergedCluster exampleRequest), snd (Reconcile convergedCluster exampleRequest))
   \<and> CallStatusUpdate convergedReadyWrite
        \<in> set (new_calls convergedCluster (fst (Reconcile convergedCluster exampleRequest)))
   \<and> State (Status convergedReadyWrite) = StateReady
   \<and> installJobComplete (fst (Reconcile convergedCluster exampleRequest))
        (installNamespace convergedReadyWrite)
   \<and> installJobSucceeded (fst (Reconcile convergedCluster exampleRequest))
        (installNamespace convergedReadyWrite)
   \<and> ObservedGeneration (Status convergedReadyWrite) = Generation convergedReadyWrite
   \<and> InstalledVersion (Status convergedReadyWrite) = DriverVersion (Spec convergedReadyWrite)"
proof -
  have a: "Reconcile convergedCluster exampleRequest =
     (fst (Reconcile convergedCluster exampleRequest), snd (Reconcile convergedCluster exampleRequest))"
    by simp
  have b: "CallStatusUpdate convergedReadyWrite
        \<in> set (new_calls convergedCluster (fst (Reconcile convergedCluster exampleRequest)))"
    by (simp add: converged_run new_calls_def) (simp add: convergedCluster_def)
  have c: "State (Status convergedReadyWrite) = StateReady"
    by (simp add: convergedReadyWrite_def convergedGpuOperator_def)
  show ?thesis
    using a b c ready_write_has_succeeded_job [OF a b c] by simp
qed

subsection \<open>C7: teardown on the tick of the deletion\<close>

text \<open>
  C7. The resource is stored under the request's key, is marked for deletion and carries
  the finalizer; the Get (call 0 of the reconcile) and the update that removes the
  finalizer (call 3) are not rejected. Whatever the server answers to the status write
  (call 1) and to the creation of the uninstall job (call 2): \<open>Reconcile\<close> returns
  \<open>ctrl.Result{}, nil\<close>; it makes exactly these four calls, so it submits the uninstall job
  and never reads it back; the update sends the resource without the finalizer, after
  which the resource has left the store if the finalizer was its last one and otherwise
  stays with its other finalizers; and the uninstall job is stored unless its creation was
  rejected.
\<close>

theorem finalizer_removed_on_the_deletion_tick:
  assumes g: "gpuOperators c (reqNamespace req, reqName req) = Some g"
      and key: "metaNamespace g = reqNamespace req" "metaName g = reqName req"
      and del: "DeletionTimestamp g \<noteq> None"
      and fin: "finalizerName \<in> set (Finalizers g)"
      and s0: "\<not> rejects (env c (length (calls c)))"
      and s3: "\<not> rejects (env c (length (calls c) + 3))"
  shows "snd (Reconcile c req) = (emptyResult, None)
       \<and> new_calls c (fst (Reconcile c req)) =
           [CallGet KGpuOperator (reqNamespace req) (reqName req),
            CallStatusUpdate (g\<lparr>Status := (Status g)\<lparr>State := StateDeleting\<rparr>\<rparr>),
            CallCreate KJob (installNamespace g) uninstallJobName,
            CallUpdate (RemoveFinalizer (g\<lparr>Status := (Status g)\<lparr>State := StateDeleting\<rparr>\<rparr>) finalizerName)]
       \<and> (case gpuOperators (fst (Reconcile c req)) (reqNamespace req, reqName req) of
             None \<Rightarrow> filter (\<lambda>f. f \<noteq> finalizerName) (Finalizers g) = []
           | Some g' \<Rightarrow> Finalizers g' = filter (\<lambda>f. f \<noteq> finalizerName) (Finalizers g))
       \<and> (if rejects (env c (length (calls c) + 2))
           then jobs (fst (Reconcile c req)) = jobs c
           else jobs (fst (Reconcile c req)) (installNamespace g, uninstallJobName) \<noteq> None)"
proof -
  define gD where "gD = g\<lparr>Status := (Status g)\<lparr>State := StateDeleting\<rparr>\<rparr>"
  define c0 where "c0 = log_call c (CallGet KGpuOperator (reqNamespace req) (reqName req))"
  define c1 where "c1 = fst (Status_Update c0 gD)"
  define c2 where "c2 = fst (Create_Job c1 (uninstallJob (installNamespace g)))"
  define gU where "gU = RemoveFinalizer gD finalizerName"
  have kD: "metaNamespace gD = reqNamespace req" "metaName gD = reqName req"
           "metaNamespace gU = reqNamespace req" "metaName gU = reqName req"
    using key by (simp_all add: gD_def gU_def RemoveFinalizer_def)
  have load: "Get_GpuOperator c (reqNamespace req, reqName req) = (c0, Inr g)"
    using Get_GpuOperator_found [OF g] s0 by (simp add: next_step_def c0_def)
  have g0: "gpuOperators c0 (metaNamespace gD, metaName gD) = Some g"
    using g kD by (simp add: c0_def)
  have su: "fst (snd (Status_Update c0 gD)) = gD"
    by (simp add: Status_Update_result [OF g0] split: option.splits) (simp add: gD_def)
  have st1: "\<exists>s. gpuOperators c1 (reqNamespace req, reqName req) = Some s"
    unfolding c1_def Status_Update_result [OF g0]
    using kD g by (simp add: c0_def split: option.splits)
  have calls1: "calls c1 = calls c @ [CallGet KGpuOperator (reqNamespace req) (reqName req), CallStatusUpdate gD]"
    by (simp add: c1_def c0_def)
  have ns: "installNamespace gD = installNamespace g"
    by (simp add: gD_def installNamespace_def)
  have fz: "finalizeGpuOperator c0 g = (c2, gD, None)"
    unfolding finalizeGpuOperator_def Let_def gD_def [symmetric] case_prod_beta su ns c1_def [symmetric] c2_def [symmetric]
    by simp
  have calls2: "calls c2 = calls c @ [CallGet KGpuOperator (reqNamespace req) (reqName req),
       CallStatusUpdate gD, CallCreate KJob (installNamespace g) uninstallJobName]"
    by (simp add: c2_def calls1)
  from st1 obtain s where s: "gpuOperators c2 (metaNamespace gU, metaName gU) = Some s"
    using kD by (auto simp: c2_def)
  have n2: "\<not> rejects (next_step c2)"
    using s3 by (simp add: next_step_def calls2 c2_def c1_def c0_def eval_nat_numeral)
  define stored where "stored =
      (if Finalizers gU = [] then None else Some (gU\<lparr>Status := Status s\<rparr>))"
  have dU: "DeletionTimestamp gU \<noteq> None"
    using del by (simp add: gU_def gD_def RemoveFinalizer_def)
  have up: "Update c2 gU = ((log_call c2 (CallUpdate gU))
              \<lparr>gpuOperators := (gpuOperators c2)((metaNamespace gU, metaName gU) := stored)\<rparr>,
            gU\<lparr>Status := Status s\<rparr>, None)"
    using n2 dU by (simp add: Update_result [OF s] rejects_rejection stored_def)
  have r: "Reconcile c req = ((log_call c2 (CallUpdate gU))
              \<lparr>gpuOperators := (gpuOperators c2)((metaNamespace gU, metaName gU) := stored)\<rparr>,
             emptyResult, None)"
    unfolding Reconcile_def Reconcile_deletion_def ContainsFinalizer_def load
    using del fin by (simp add: fz Let_def gU_def [symmetric] up)
  have j1: "jobs c1 = jobs c" by (simp add: c1_def c0_def)
  have e2: "next_step c1 = env c (length (calls c) + 2)"
    by (simp add: next_step_def calls1 c1_def c0_def)
  have j2: "if rejects (env c (length (calls c) + 2)) then jobs c2 = jobs c
            else jobs c2 (installNamespace g, uninstallJobName) \<noteq> None"
    using e2 j1 by (auto simp: c2_def jobs_Create_Job)
  have fU: "Finalizers gU = filter (\<lambda>f. f \<noteq> finalizerName) (Finalizers g)"
    by (simp add: gU_def gD_def RemoveFinalizer_def)
  have jr: "jobs (fst (Reconcile c req)) = jobs c2" by (simp add: r)
  have cr: "new_calls c (fst (Reconcile c req)) =
           [CallGet KGpuOperator (reqNamespace req) (reqName req), CallStatusUpdate gD,
            CallCreate KJob (installNamespace g) uninstallJobName, CallUpdate gU]"
    by (simp add: r new_calls_def calls2)
  have sr: "gpuOperators (fst (Reconcile c req)) (reqNamespace req, reqName req) = stored"
    by (simp add: r kD)
  have f: "case stored of
             None \<Rightarrow> filter (\<lambda>f. f \<noteq> finalizerName) (Finalizers g) = []
           | Some g' \<Rightarrow> Finalizers g' = filter (\<lambda>f. f \<noteq> finalizerName) (Finalizers g)"
    using fU by (simp add: stored_def)
  show ?thesis
    unfolding gD_def [symmetric] gU_def [symmetric] cr sr jr
    using j2 f by (simp add: r)
qed

theorem finalizer_removed_on_the_deletion_tick_witness:
  "gpuOperators deletingCluster (reqNamespace exampleRequest, reqName exampleRequest) = Some deletingGpuOperator
   \<and> metaNamespace deletingGpuOperator = reqNamespace exampleRequest
   \<and> metaName deletingGpuOperator = reqName exampleRequest
   \<and> DeletionTimestamp deletingGpuOperator \<noteq> None
   \<and> finalizerName \<in> set (Finalizers deletingGpuOperator)
   \<and> \<not> rejects (env deletingCluster (length (calls deletingCluster)))
   \<and> rejects (env deletingCluster (length (calls deletingCluster) + 1))
   \<and> rejects (env deletingCluster (length (calls deletingCluster) + 2))
   \<and> \<not> rejects (env deletingCluster (length (calls deletingCluster) + 3))
   \<and> snd (Reconcile deletingCluster exampleRequest) = (emptyResult, None)
   \<and> new_calls deletingCluster (fst (Reconcile deletingCluster exampleRequest)) =
           [CallGet KGpuOperator (reqNamespace exampleRequest) (reqName exampleRequest),
            CallStatusUpdate (deletingGpuOperator\<lparr>Status := (Status deletingGpuOperator)\<lparr>State := StateDeleting\<rparr>\<rparr>),
            CallCreate KJob (installNamespace deletingGpuOperator) uninstallJobName,
            CallUpdate (RemoveFinalizer (deletingGpuOperator\<lparr>Status := (Status deletingGpuOperator)\<lparr>State := StateDeleting\<rparr>\<rparr>) finalizerName)]
   \<and> (case gpuOperators (fst (Reconcile deletingCluster exampleRequest))
               (reqNamespace exampleRequest, reqName exampleRequest) of
         None \<Rightarrow> filter (\<lambda>f. f \<noteq> finalizerName) (Finalizers deletingGpuOperator) = []
       | Some g' \<Rightarrow> Finalizers g' = filter (\<lambda>f. f \<noteq> finalizerName) (Finalizers deletingGpuOperator))
   \<and> jobs (fst (Reconcile deletingCluster exampleRequest)) = jobs deletingCluster"
proof -
  have a: "gpuOperators deletingCluster (reqNamespace exampleRequest, reqName exampleRequest) = Some deletingGpuOperator"
    by (simp add: deletingCluster_def exampleRequest_def)
  have b: "metaNamespace deletingGpuOperator = reqNamespace exampleRequest"
    by (simp add: deletingGpuOperator_def processingGpuOperator_def exampleRequest_def)
  have c: "metaName deletingGpuOperator = reqName exampleRequest"
    by (simp add: deletingGpuOperator_def processingGpuOperator_def exampleRequest_def)
  have d: "DeletionTimestamp deletingGpuOperator \<noteq> None"
    by (simp add: deletingGpuOperator_def)
  have e: "finalizerName \<in> set (Finalizers deletingGpuOperator)"
    by (simp add: deletingGpuOperator_def processingGpuOperator_def)
  have f: "\<not> rejects (env deletingCluster (length (calls deletingCluster)))"
    by (simp add: deletingCluster_def)
  have g: "\<not> rejects (env deletingCluster (length (calls deletingCluster) + 3))"
    by (simp add: deletingCluster_def)
  have h: "rejects (env deletingCluster (length (calls deletingCluster) + 1))
         \<and> rejects (env deletingCluster (length (calls deletingCluster) + 2))"
    by (simp add: deletingCluster_def)
  show ?thesis
    using a b c d e f g h finalizer_removed_on_the_deletion_tick [OF a b c d e f g]
    by simp
qed

subsection \<open>C8: the permission bindings\<close>

text \<open>
  C8 fails on the code. \<open>ensureRBAC\<close> is documented as creating the ClusterRole and the
  ClusterRoleBinding of the Helm installer, and its body is \<open>return nil\<close>. The reconcile
  of the fresh resource, in a cluster without any RBAC object, goes through the
  ensure-dependents step and on to the install job, which it submits to run as service
  account \<open>gpu-operator\<close>; \<open>ensureRBAC\<close> there makes no call; no call of the run creates a
  role, a cluster role or a binding, and no RBAC object exists afterwards.
\<close>

theorem rbac_bindings_are_never_created:
  "rbacObjects freshCluster = {}
   \<and> ensureRBAC (fst freshAccount) ''gpu-operator'' = (fst freshAccount, None)
   \<and> snd (Reconcile freshCluster exampleRequest) = (\<lparr>Requeue = False, RequeueAfter = 10 * Second\<rparr>, None)
   \<and> map_option ServiceAccountName
        (jobs (fst (Reconcile freshCluster exampleRequest)) (''gpu-operator'', ''gpu-operator-install''))
      = Some ''gpu-operator''
   \<and> rbacObjects (fst (Reconcile freshCluster exampleRequest)) = {}
   \<and> filter creates_rbac (calls (fst (Reconcile freshCluster exampleRequest))) = []"
  by (simp add: fresh_run ensureRBAC_def) (simp add: freshCluster_def installJob_def)

text \<open>
  The same of every cluster and every answer of the server: \<open>ensureRBAC\<close> makes no API
  call and returns nil, no call of a reconcile creates a role, a cluster role or a
  binding, and the RBAC objects are after the reconcile what they were before.
\<close>

lemma reconcile_creates_no_rbac:
  "ensureRBAC c namespace = (c, None)
   \<and> list_all (\<lambda>call. \<not> creates_rbac call) (new_calls c (fst (Reconcile c req)))
   \<and> rbacObjects (fst (Reconcile c req)) = rbacObjects c"
proof -
  have "run_ok c (fst (Reconcile c req))" by (rule Reconcile_run_ok)
  then have "list_all (\<lambda>call. \<not> creates_rbac call) (new_calls c (fst (Reconcile c req)))"
    by (auto simp: run_ok_def new_calls_def list_all_iff dest: benign_not_rbac)
  then show ?thesis by (simp add: ensureRBAC_def rbacObjects_Reconcile)
qed

subsection \<open>C9: one install job per namespace\<close>

text \<open>
  C9 fails on the code for the resource of the README, which lives in namespace
  \<open>default\<close> and installs into \<open>gpu-operator\<close>: \<open>createHelmInstallJob\<close> sets the owner
  reference before it looks for the job, and \<open>SetControllerReference\<close> refuses an owner in
  another namespace. With the install job present, the submission returns this error and
  not success, and \<open>Reconcile\<close> returns it. With nothing present, the first reconcile
  creates the namespace and the service account, makes no call for the job, writes state
  Error and returns the same error: the job is never submitted.
\<close>

theorem readme_resource_submit_fails:
  "jobs readmeCluster (''gpu-operator'', installJobName) = Some (installJob ''gpu-operator'')
   \<and> \<not> rejects (next_step readmeCluster)
   \<and> createHelmInstallJob readmeCluster readmeGpuOperator ''gpu-operator'' =
        (readmeCluster, Some ownerReferenceError)
   \<and> snd (Reconcile readmeCluster readmeRequest) = (emptyResult, Some ownerReferenceError)
   \<and> snd (Reconcile readmeFreshCluster readmeRequest) = (emptyResult, Some ownerReferenceError)
   \<and> jobs (fst (Reconcile readmeFreshCluster readmeRequest)) = Map.empty
   \<and> filter is_write (calls (fst (Reconcile readmeFreshCluster readmeRequest))) =
        [CallUpdate (readmeFreshGpuOperator\<lparr>Finalizers := [finalizerName]\<rparr>),
         CallStatusUpdate (readmeFreshGpuOperator\<lparr>Finalizers := [finalizerName],
            Status := (Status readmeFreshGpuOperator)\<lparr>State := StateProcessing\<rparr>\<rparr>),
         CallCreate KNamespace [] ''gpu-operator'',
         CallCreate KServiceAccount ''gpu-operator'' ''gpu-operator'',
         CallStatusUpdate (readmeFreshGpuOperator\<lparr>Finalizers := [finalizerName],
            Status := (Status readmeFreshGpuOperator)
              \<lparr>State := StateError,
               Conditions := [failureCondition 1 100 (Error ownerReferenceError)]\<rparr>\<rparr>)]"
  by (simp add: ctrl_defs client_defs example_defs const_defs Let_def)

text \<open>
  Apart from that slip the submission is as C9 says. When a job with the fixed name
  exists in the namespace and the Get is not rejected, \<open>createHelmInstallJob\<close> creates
  nothing; it returns nil where the owner reference can be set, logging its Get and
  changing nothing else. And when one submission has returned nil, the next one (its Get
  not rejected) finds the job, logs its Get, changes nothing else and returns nil.
\<close>

lemma existing_install_job_is_not_resubmitted:
  "(jobs c (namespace, installJobName) = Some existingJob \<and> \<not> rejects (next_step c) \<longrightarrow>
      createHelmInstallJob c gpuOperator namespace =
        (case validateOwner (metaNamespace gpuOperator) namespace of
           None \<Rightarrow> (log_call c (CallGet KJob namespace installJobName), None)
         | Some err \<Rightarrow> (c, Some (WrapError ''failed to set owner reference: '' err))))
   \<and> (createHelmInstallJob c gpuOperator namespace = (c1, None) \<and> \<not> rejects (next_step c1) \<longrightarrow>
      createHelmInstallJob c1 gpuOperator namespace =
        (log_call c1 (CallGet KJob namespace installJobName), None))"
proof (intro conjI impI)
  assume a: "jobs c (namespace, installJobName) = Some existingJob \<and> \<not> rejects (next_step c)"
  then show "createHelmInstallJob c gpuOperator namespace =
        (case validateOwner (metaNamespace gpuOperator) namespace of
           None \<Rightarrow> (log_call c (CallGet KJob namespace installJobName), None)
         | Some err \<Rightarrow> (c, Some (WrapError ''failed to set owner reference: '' err)))"
    using Get_Job_found [of c "(namespace, installJobName)" existingJob]
    by (simp add: createHelmInstallJob_def SetControllerReference_def split: option.splits)
next
  assume a: "createHelmInstallJob c gpuOperator namespace = (c1, None) \<and> \<not> rejects (next_step c1)"
  from a createHelmInstallJob_success_stores [of c gpuOperator namespace c1]
  obtain job where v: "validateOwner (metaNamespace gpuOperator) namespace = None"
    and j: "jobs c1 (namespace, installJobName) = Some job" by auto
  show "createHelmInstallJob c1 gpuOperator namespace =
        (log_call c1 (CallGet KJob namespace installJobName), None)"
    using Get_Job_found [OF j] a v
    by (simp add: createHelmInstallJob_def SetControllerReference_def)
qed

lemma existing_install_job_is_not_resubmitted_example:
  "jobs convergedCluster (''gpu-operator'', installJobName) = Some completedJob
   \<and> \<not> rejects (next_step convergedCluster)
   \<and> createHelmInstallJob convergedCluster convergedGpuOperator ''gpu-operator'' =
        (log_call convergedCluster (CallGet KJob ''gpu-operator'' installJobName), None)
   \<and> \<not> rejects (next_step (log_call convergedCluster (CallGet KJob ''gpu-operator'' installJobName)))
   \<and> createHelmInstallJob (log_call convergedCluster (CallGet KJob ''gpu-operator'' installJobName))
          convergedGpuOperator ''gpu-operator'' =
        (log_call (log_call convergedCluster (CallGet KJob ''gpu-operator'' installJobName))
           (CallGet KJob ''gpu-operator'' installJobName), None)"
proof -
  note t = existing_install_job_is_not_resubmitted [where c = convergedCluster
      and namespace = "''gpu-operator''" and existingJob = completedJob
      and gpuOperator = convergedGpuOperator
      and ?c1.0 = "log_call convergedCluster (CallGet KJob ''gpu-operator'' installJobName)"]
  have a: "jobs convergedCluster (''gpu-operator'', installJobName) = Some completedJob
     \<and> \<not> rejects (next_step convergedCluster)"
    by (simp add: convergedCluster_def installJobName_def next_step_def)
  have v: "validateOwner (metaNamespace convergedGpuOperator) ''gpu-operator'' = None"
    by (simp add: validateOwner_def convergedGpuOperator_def)
  have b: "\<not> rejects (next_step (log_call convergedCluster (CallGet KJob ''gpu-operator'' installJobName)))"
    by (simp add: convergedCluster_def)
  from t a v b show ?thesis by simp
qed

subsection \<open>C10: deletion without the finalizer\<close>

text \<open>
  C10. When the resource that the request names is loaded (the Get is not rejected), has
  a deletion timestamp and does not carry the controller's finalizer, \<open>Reconcile\<close> returns
  \<open>ctrl.Result{}, nil\<close> and the cluster is as before but for the logged Get: no uninstall
  job is submitted, no status is written, the resource is not changed.
\<close>

theorem deleted_without_finalizer_is_left_alone:
  assumes "gpuOperators c (reqNamespace req, reqName req) = Some g"
      and "DeletionTimestamp g \<noteq> None"
      and "finalizerName \<notin> set (Finalizers g)"
      and "\<not> rejects (next_step c)"
  shows "Reconcile c req =
           (log_call c (CallGet KGpuOperator (reqNamespace req) (reqName req)), emptyResult, None)"
  using assms
  by (cases "next_step c")
     (simp_all add: Reconcile_def Get_GpuOperator_def Reconcile_deletion_def
        ContainsFinalizer_def Let_def)

theorem deleted_without_finalizer_is_left_alone_witness:
  "gpuOperators orphanedCluster (reqNamespace exampleRequest, reqName exampleRequest)
     = Some orphanedGpuOperator
   \<and> DeletionTimestamp orphanedGpuOperator \<noteq> None
   \<and> finalizerName \<notin> set (Finalizers orphanedGpuOperator)
   \<and> \<not> rejects (next_step orphanedCluster)
   \<and> Reconcile orphanedCluster exampleRequest =
        (log_call orphanedCluster
           (CallGet KGpuOperator (reqNamespace exampleRequest) (reqName exampleRequest)),
         emptyResult, None)"
proof -
  have a: "gpuOperators orphanedCluster (reqNamespace exampleRequest, reqName exampleRequest)
     = Some orphanedGpuOperator"
    by (simp add: orphanedCluster_def exampleRequest_def)
  have b: "DeletionTimestamp orphanedGpuOperator \<noteq> None"
    by (simp add: orphanedGpuOperator_def)
  have c: "finalizerName \<notin> set (Finalizers orphanedGpuOperator)"
    by (simp add: orphanedGpuOperator_def freshGpuOperator_def)
  have d: "\<not> rejects (next_step orphanedCluster)"
    by (simp add: orphanedCluster_def next_step_def)
  show ?thesis
    using a b c d deleted_without_finalizer_is_left_alone [OF a b c d] by simp
qed

end
